theory Spec2Isabelle
  imports Main
begin

section \<open>Documents and the store\<close>

text \<open>
  The backend keeps eight Mongoose models in MongoDB. A storage identity (\<open>_id\<close>, an
  ObjectId) is a natural number here; a collection is the list of its documents, each
  paired with its \<open>_id\<close>, in insertion order. Request parameters that the handlers
  pass to \<open>findById\<close> or store in reference arrays are taken to be well-formed
  ObjectIds (a malformed one makes Mongoose raise a CastError, which is outside this
  development). A role is the string the schema stores.
\<close>

type_synonym oid = nat

type_synonym 'a collection = "(oid \<times> 'a) list"

record user_doc =
  user_id :: string
  user_name :: string
  first_name :: string
  last_name :: string
  email :: string
  phone :: "string list"
  institution :: string
  password :: string
  roles :: "string list"

record note_doc =
  note_id :: string
  UID :: oid
  title :: string
  content :: string
  ntype :: string
  creation_time :: nat
  tags :: "oid list"
  notebooks :: "oid list"
  connected_notes :: "oid list"
  attachments :: "oid list"
  comments :: "oid list"
  view_type :: string
  posted_time :: nat

record tag_doc =
  tag_id :: string
  tag_name :: string
  tag_notes :: "oid list"

record notebook_doc =
  notebook_ID :: string
  notebook_name :: string
  parent_notebook :: "oid option"
  owner :: oid
  notebook_notes :: "oid list"
  accessible_groups :: "oid list"
  notebook_createdAt :: nat

record comment_doc =
  comment_id :: string
  comment_user :: oid
  comment_note :: oid
  comment_text :: string
  comment_time :: nat
  comment_attachments :: "oid list"

record attachment_doc =
  attachment_ID :: string
  file_name :: string
  file_type :: string
  URL :: string
  parent_type :: string
  parent_id :: oid
  file_size :: nat
  attachment_createdAt :: nat

record group_doc =
  group_id :: string
  group_name :: string
  lead_editor :: oid
  members :: "oid list"
  accessible_notebooks :: "oid list"
  group_attachments :: "oid list"
  group_createdAt :: nat

record store =
  db_users :: "user_doc collection"
  db_notes :: "note_doc collection"
  db_tags :: "tag_doc collection"
  db_notebooks :: "notebook_doc collection"
  db_comments :: "comment_doc collection"
  db_attachments :: "attachment_doc collection"
  db_groups :: "group_doc collection"

text \<open>
  What the authentication middleware attaches to a request (\<open>req.userId\<close> and
  \<open>req.user.roles || []\<close>), and what the runtime supplies when a document is built:
  the fresh ObjectId, \<open>Date.now()\<close>, and the text
  \<open>${Date.now()}_${Math.random().toString(36).substr(2, 9)}\<close> that follows the
  prefix of a business key.
\<close>

record auth =
  userId :: oid
  userRoles :: "string list"

record env =
  new_oid :: oid
  now :: nat
  key_suffix :: string

text \<open>
  A failure is what a handler's \<open>catch\<close> block receives (a validation error names
  the paths that failed, a duplicate-key error the unique index, a \<open>TypeError\<close> or a
  plain \<open>Error\<close> carries its message); a response is the status, the
  \<open>message\<close> field, the \<open>error\<close> field of a 500 body and the document or list sent
  back (references are not expanded: \<open>populate\<close> only shapes the body, except where a
  handler reads a populated field).
\<close>

datatype failure =
    ValidationError "string list"
  | DuplicateKey string
  | TypeError string
  | JsError string

datatype 'a response =
  Response (status: nat) (message: string) (error: "failure option") (payload: "'a option")

section \<open>Collection operations\<close>

definition findById :: "'a collection \<Rightarrow> oid \<Rightarrow> 'a option" where
  "findById c i = map_of c i"

definition find_docs :: "(oid \<Rightarrow> 'a \<Rightarrow> bool) \<Rightarrow> 'a collection \<Rightarrow> 'a collection" where
  "find_docs P c = filter (\<lambda>(i, d). P i d) c"

definition findOne :: "(oid \<Rightarrow> 'a \<Rightarrow> bool) \<Rightarrow> 'a collection \<Rightarrow> (oid \<times> 'a) option" where
  "findOne P c = List.find (\<lambda>(i, d). P i d) c"

definition deleteMany :: "(oid \<Rightarrow> 'a \<Rightarrow> bool) \<Rightarrow> 'a collection \<Rightarrow> 'a collection" where
  "deleteMany P c = filter (\<lambda>(i, d). \<not> P i d) c"

definition findByIdAndDelete :: "oid \<Rightarrow> 'a collection \<Rightarrow> 'a collection" where
  "findByIdAndDelete i c = filter (\<lambda>(j, d). j \<noteq> i) c"

definition updateMany ::
  "(oid \<Rightarrow> 'a \<Rightarrow> bool) \<Rightarrow> ('a \<Rightarrow> 'a) \<Rightarrow> 'a collection \<Rightarrow> 'a collection" where
  "updateMany P f c = map (\<lambda>(i, d). if P i d then (i, f d) else (i, d)) c"

definition findByIdAndUpdate :: "oid \<Rightarrow> ('a \<Rightarrow> 'a) \<Rightarrow> 'a collection \<Rightarrow> 'a collection" where
  "findByIdAndUpdate i f c = updateMany (\<lambda>j d. j = i) f c"

text \<open>\<open>doc.save()\<close> on a document that was loaded: the stored document is replaced.\<close>

definition save_existing :: "oid \<Rightarrow> 'a \<Rightarrow> 'a collection \<Rightarrow> 'a collection" where
  "save_existing i d c = map (\<lambda>(j, e). if j = i then (j, d) else (j, e)) c"

text \<open>\<open>doc.save()\<close> on a new document: it is appended.\<close>

definition insert_doc :: "oid \<Rightarrow> 'a \<Rightarrow> 'a collection \<Rightarrow> 'a collection" where
  "insert_doc i d c = c @ [(i, d)]"

text \<open>The array update operators \<open>$pull\<close> and \<open>$addToSet\<close>, and \<open>Array.push\<close>.\<close>

definition pull :: "oid \<Rightarrow> oid list \<Rightarrow> oid list" where
  "pull x xs = removeAll x xs"

definition addToSet :: "oid \<Rightarrow> oid list \<Rightarrow> oid list" where
  "addToSet x xs = (if x \<in> set xs then xs else xs @ [x])"

definition push :: "oid \<Rightarrow> oid list \<Rightarrow> oid list" where
  "push x xs = xs @ [x]"

text \<open>\<open>.sort({field: -1})\<close>: descending in the field.\<close>

definition sort_desc :: "('a \<Rightarrow> nat) \<Rightarrow> 'a collection \<Rightarrow> 'a collection" where
  "sort_desc f c = rev (sort_key (\<lambda>(i, d). f d) c)"

section \<open>Schema setters and validators\<close>

text \<open>
  Mongoose applies the \<open>trim\<close> and \<open>lowercase\<close> setters of a String path when the
  path is assigned and when it occurs in a query filter; on \<open>save\<close> it runs the
  \<open>required\<close>, \<open>enum\<close> and \<open>minlength\<close> validators (a required String must be
  non-empty) and the store rejects a duplicate under a unique index.
\<close>

definition is_space :: "char \<Rightarrow> bool" where
  "is_space c = (c \<in> set [CHR '' '', CHR 0x09, CHR 0x0A, CHR 0x0B, CHR 0x0C, CHR 0x0D])"

definition trim :: "string \<Rightarrow> string" where
  "trim s = rev (dropWhile is_space (rev (dropWhile is_space s)))"

definition lower_char :: "char \<Rightarrow> char" where
  "lower_char c =
     (case map_of (zip ''ABCDEFGHIJKLMNOPQRSTUVWXYZ'' ''abcdefghijklmnopqrstuvwxyz'') c of
        None \<Rightarrow> c
      | Some d \<Rightarrow> d)"

definition toLowerCase :: "string \<Rightarrow> string" where
  "toLowerCase s = map lower_char s"

text \<open>\<open>!x\<close> and \<open>x || d\<close> on an optional string of the request body.\<close>

definition falsy :: "string option \<Rightarrow> bool" where
  "falsy x = (case x of None \<Rightarrow> True | Some v \<Rightarrow> v = [])"

definition or_default :: "string option \<Rightarrow> string \<Rightarrow> string" where
  "or_default x d = (case x of None \<Rightarrow> d | Some v \<Rightarrow> if v = [] then d else v)"

definition or_empty :: "'a list option \<Rightarrow> 'a list" where
  "or_empty x = (case x of None \<Rightarrow> [] | Some v \<Rightarrow> v)"

definition required_errors :: "(string \<times> string) list \<Rightarrow> string list" where
  "required_errors pvs = map fst (filter (\<lambda>(path, v). v = []) pvs)"

definition enum_errors :: "string \<Rightarrow> string list \<Rightarrow> string list \<Rightarrow> string list" where
  "enum_errors path allowed vs = (if \<forall>v \<in> set vs. v \<in> set allowed then [] else [path])"

definition minlength_errors :: "string \<Rightarrow> nat \<Rightarrow> string \<Rightarrow> string list" where
  "minlength_errors path k v = (if v \<noteq> [] \<and> length v < k then [path] else [])"

section \<open>Note model and note controller\<close>

definition note_types :: "string list" where
  "note_types = [''text'', ''markdown'', ''todo'', ''code'']"

definition view_types :: "string list" where
  "view_types = [''public'', ''private'', ''shared'']"

text \<open>
  The validators of the Note schema. The required paths are checked on every save;
  the \<open>enum\<close> of a path is checked when the path was assigned (the flags).
\<close>

definition validate_note :: "bool \<Rightarrow> bool \<Rightarrow> note_doc \<Rightarrow> string list" where
  "validate_note type_set view_set n =
     required_errors [(''note_id'', note_id n), (''title'', title n)]
     @ (if type_set then enum_errors ''type'' note_types [ntype n] else [])
     @ (if view_set then enum_errors ''view_type'' view_types [view_type n] else [])"

text \<open>\<open>note.save()\<close> of a new note: validation, then the unique indexes.\<close>

definition save_new_note :: "oid \<Rightarrow> note_doc \<Rightarrow> store \<Rightarrow> failure + store" where
  "save_new_note i n s =
     (if validate_note True True n \<noteq> [] then Inl (ValidationError (validate_note True True n))
      else if i \<in> fst ` set (db_notes s) then Inl (DuplicateKey ''_id'')
      else if \<exists>(j, m) \<in> set (db_notes s). note_id m = note_id n then Inl (DuplicateKey ''note_id'')
      else Inr (s\<lparr>db_notes := insert_doc i n (db_notes s)\<rparr>))"

text \<open>\<open>note.save()\<close> of a loaded note.\<close>

definition save_note :: "bool \<Rightarrow> bool \<Rightarrow> oid \<Rightarrow> note_doc \<Rightarrow> store \<Rightarrow> failure + store" where
  "save_note type_set view_set i n s =
     (if validate_note type_set view_set n \<noteq> []
      then Inl (ValidationError (validate_note type_set view_set n))
      else Inr (s\<lparr>db_notes := save_existing i n (db_notes s)\<rparr>))"

record note_body =
  b_title :: "string option"
  b_content :: "string option"
  b_type :: "string option"
  b_tags :: "oid list option"
  b_notebook_ids :: "oid list option"
  b_connected_note_ids :: "oid list option"
  b_view_type :: "string option"

definition createNote ::
  "auth \<Rightarrow> env \<Rightarrow> note_body \<Rightarrow> store \<Rightarrow> (oid \<times> note_doc) response \<times> store" where
  "createNote a e b s =
     (if falsy (b_title b) then (Response 400 ''Note title is required'' None None, s)
      else
        let n = \<lparr>note_id = ''NOTE_'' @ key_suffix e,
                 UID = userId a,
                 title = trim (or_default (b_title b) []),
                 content = or_default (b_content b) [],
                 ntype = or_default (b_type b) ''text'',
                 creation_time = now e,
                 tags = or_empty (b_tags b),
                 notebooks = or_empty (b_notebook_ids b),
                 connected_notes = or_empty (b_connected_note_ids b),
                 attachments = [],
                 comments = [],
                 view_type = ''private'',
                 posted_time = now e\<rparr>
        in case save_new_note (new_oid e) n s of
             Inl err \<Rightarrow> (Response 500 ''Error creating note'' (Some err) None, s)
           | Inr s' \<Rightarrow> (Response 201 ''Note created successfully'' None (Some (new_oid e, n)), s'))"



text \<open>
  \<open>getNoteById\<close> populates \<open>UID\<close> before the access check, which reads
  \<open>note.UID._id\<close>: when the owner is not in the users collection the populated
  field is \<open>null\<close>, the read throws and the \<open>catch\<close> block answers 500. The check is
  only reached by a requester without the Admin role.
\<close>

definition getNoteById :: "auth \<Rightarrow> oid \<Rightarrow> store \<Rightarrow> (oid \<times> note_doc) response" where
  "getNoteById a i s =
     (case findById (db_notes s) i of
        None \<Rightarrow> Response 404 ''Note not found'' None None
      | Some n \<Rightarrow>
          if ''Admin'' \<in> set (userRoles a)
          then Response 200 ''Note retrieved successfully'' None (Some (i, n))
          else (case findById (db_users s) (UID n) of
                  None \<Rightarrow> Response 500 ''Error fetching note'' (Some (TypeError ''UID'')) None
                | Some u \<Rightarrow>
                    if UID n \<noteq> userId a \<and> view_type n = ''private''
                    then Response 403 ''Access denied to this note'' None None
                    else Response 200 ''Note retrieved successfully'' None (Some (i, n))))"

definition updateNote ::
  "auth \<Rightarrow> oid \<Rightarrow> note_body \<Rightarrow> store \<Rightarrow> (oid \<times> note_doc) response \<times> store" where
  "updateNote a i b s =
     (case findById (db_notes s) i of
        None \<Rightarrow> (Response 404 ''Note not found'' None None, s)
      | Some n \<Rightarrow>
          let canEdit = (''Admin'' \<in> set (userRoles a)
                         \<or> ''Editor'' \<in> set (userRoles a)
                         \<or> ''Lead Editor'' \<in> set (userRoles a)
                         \<or> UID n = userId a)
          in if \<not> canEdit
             then (Response 403 ''You do not have permission to edit this note'' None None, s)
             else
               let n1 = (case b_title b of None \<Rightarrow> n | Some v \<Rightarrow> n\<lparr>title := trim v\<rparr>);
                   n2 = (case b_content b of None \<Rightarrow> n1 | Some v \<Rightarrow> n1\<lparr>content := v\<rparr>);
                   n3 = (case b_type b of None \<Rightarrow> n2 | Some v \<Rightarrow> n2\<lparr>ntype := v\<rparr>);
                   n4 = (case b_tags b of None \<Rightarrow> n3 | Some v \<Rightarrow> n3\<lparr>tags := v\<rparr>);
                   n5 = (case b_notebook_ids b of None \<Rightarrow> n4 | Some v \<Rightarrow> n4\<lparr>notebooks := v\<rparr>);
                   n6 = (case b_view_type b of None \<Rightarrow> n5 | Some v \<Rightarrow> n5\<lparr>view_type := v\<rparr>)
               in case save_note (b_type b \<noteq> None) (b_view_type b \<noteq> None) i n6 s of
                    Inl err \<Rightarrow> (Response 500 ''Error updating note'' (Some err) None, s)
                  | Inr s' \<Rightarrow> (Response 200 ''Note updated successfully'' None (Some (i, n6)), s'))"

definition deleteNote :: "auth \<Rightarrow> oid \<Rightarrow> store \<Rightarrow> unit response \<times> store" where
  "deleteNote a i s =
     (case findById (db_notes s) i of
        None \<Rightarrow> (Response 404 ''Note not found'' None None, s)
      | Some n \<Rightarrow>
          let canDelete = (''Admin'' \<in> set (userRoles a)
                           \<or> ''Editor'' \<in> set (userRoles a)
                           \<or> ''Lead Editor'' \<in> set (userRoles a)
                           \<or> UID n = userId a)
          in if \<not> canDelete
             then (Response 403 ''You do not have permission to delete this note'' None None, s)
             else
               let s1 = s\<lparr>db_comments := deleteMany (\<lambda>j c. comment_note c = i) (db_comments s)\<rparr>;
                   s2 = s1\<lparr>db_attachments :=
                            deleteMany (\<lambda>j t. parent_type t = ''Note'' \<and> parent_id t = i)
                              (db_attachments s1)\<rparr>;
                   s3 = s2\<lparr>db_notes := findByIdAndDelete i (db_notes s2)\<rparr>
               in (Response 200 ''Note deleted successfully'' None None, s3))"

text \<open>
  \<open>tag.save()\<close> of a loaded tag runs the required validators of the Tag schema.
\<close>

definition validate_tag :: "tag_doc \<Rightarrow> string list" where
  "validate_tag t = required_errors [(''tag_id'', tag_id t), (''tag_name'', tag_name t)]"

definition save_tag :: "oid \<Rightarrow> tag_doc \<Rightarrow> store \<Rightarrow> failure + store" where
  "save_tag i t s =
     (if validate_tag t \<noteq> [] then Inl (ValidationError (validate_tag t))
      else Inr (s\<lparr>db_tags := save_existing i t (db_tags s)\<rparr>))"

text \<open>
  \<open>addTagToNote\<close> has no permission check. The note is saved before the tag is
  touched, so a failure of the second save leaves the first one in the store.
\<close>

definition addTagToNote ::
  "oid \<Rightarrow> oid option \<Rightarrow> store \<Rightarrow> (oid \<times> note_doc) response \<times> store" where
  "addTagToNote i tg_id s =
     (case tg_id of
        None \<Rightarrow> (Response 400 ''tag_id is required'' None None, s)
      | Some t \<Rightarrow>
          (case (findById (db_notes s) i, findById (db_tags s) t) of
             (Some n, Some tg) \<Rightarrow>
               if t \<notin> set (tags n) then
                 let n' = n\<lparr>tags := push t (tags n)\<rparr> in
                 (case save_note False False i n' s of
                    Inl err \<Rightarrow> (Response 500 ''Error adding tag'' (Some err) None, s)
                  | Inr s1 \<Rightarrow>
                      if i \<notin> set (tag_notes tg) then
                        (case save_tag t (tg\<lparr>tag_notes := push i (tag_notes tg)\<rparr>) s1 of
                           Inl err \<Rightarrow> (Response 500 ''Error adding tag'' (Some err) None, s1)
                         | Inr s2 \<Rightarrow>
                             (Response 200 ''Tag added to note successfully'' None (Some (i, n')), s2))
                      else (Response 200 ''Tag added to note successfully'' None (Some (i, n')), s1))
               else (Response 200 ''Tag added to note successfully'' None (Some (i, n)), s)
           | _ \<Rightarrow> (Response 404 ''Note or tag not found'' None None, s)))"

section \<open>Tag, comment and attachment controllers\<close>

definition deleteTag :: "oid \<Rightarrow> store \<Rightarrow> unit response \<times> store" where
  "deleteTag i s =
     (case findById (db_tags s) i of
        None \<Rightarrow> (Response 404 ''Tag not found'' None None, s)
      | Some t \<Rightarrow>
          let s1 = s\<lparr>db_notes :=
                       updateMany (\<lambda>j n. i \<in> set (tags n)) (\<lambda>n. n\<lparr>tags := pull i (tags n)\<rparr>)
                         (db_notes s)\<rparr>;
              s2 = s1\<lparr>db_tags := findByIdAndDelete i (db_tags s1)\<rparr>
          in (Response 200 ''Tag deleted successfully'' None None, s2))"

definition getComments :: "oid option \<Rightarrow> store \<Rightarrow> comment_doc collection response" where
  "getComments nt_id s =
     Response 200 ''Comments retrieved successfully'' None
       (Some (sort_desc comment_time
          (find_docs (\<lambda>j c. case nt_id of None \<Rightarrow> True | Some n \<Rightarrow> comment_note c = n)
             (db_comments s))))"

definition deleteComment :: "auth \<Rightarrow> oid \<Rightarrow> store \<Rightarrow> unit response \<times> store" where
  "deleteComment a i s =
     (case findById (db_comments s) i of
        None \<Rightarrow> (Response 404 ''Comment not found'' None None, s)
      | Some c \<Rightarrow>
          let canDelete = (''Admin'' \<in> set (userRoles a)
                           \<or> ''Editor'' \<in> set (userRoles a)
                           \<or> ''Lead Editor'' \<in> set (userRoles a)
                           \<or> comment_user c = userId a)
          in if \<not> canDelete
             then (Response 403 ''You do not have permission to delete this comment'' None None, s)
             else
               let s1 = s\<lparr>db_notes :=
                            findByIdAndUpdate (comment_note c)
                              (\<lambda>n. n\<lparr>comments := pull i (comments n)\<rparr>) (db_notes s)\<rparr>;
                   s2 = s1\<lparr>db_comments := findByIdAndDelete i (db_comments s1)\<rparr>
               in (Response 200 ''Comment deleted successfully'' None None, s2))"

definition getAttachments ::
  "string option \<Rightarrow> oid option \<Rightarrow> store \<Rightarrow> attachment_doc collection response" where
  "getAttachments p_type p_id s =
     Response 200 ''Attachments retrieved successfully'' None
       (Some (sort_desc attachment_createdAt
          (find_docs
             (\<lambda>j t. (falsy p_type \<or> Some (parent_type t) = p_type)
                     \<and> (case p_id of None \<Rightarrow> True | Some p \<Rightarrow> parent_id t = p))
             (db_attachments s))))"

section \<open>Notebook controller\<close>

text \<open>
  The operator \<open>$in\<close> on an array path: some element of the array is among the
  candidates. \<open>getNotebooks\<close> passes the empty candidate list.
\<close>

definition dollar_in :: "oid list \<Rightarrow> oid list \<Rightarrow> bool" where
  "dollar_in field_values candidates = (\<exists>v \<in> set field_values. v \<in> set candidates)"

definition getNotebooks_query :: "auth \<Rightarrow> oid \<Rightarrow> notebook_doc \<Rightarrow> bool" where
  "getNotebooks_query a i nb =
     (''Admin'' \<in> set (userRoles a)
      \<or> owner nb = userId a \<or> dollar_in (accessible_groups nb) [])"

definition getNotebooks :: "auth \<Rightarrow> store \<Rightarrow> notebook_doc collection response" where
  "getNotebooks a s =
     Response 200 ''Notebooks retrieved successfully'' None
       (Some (sort_desc notebook_createdAt (find_docs (getNotebooks_query a) (db_notebooks s))))"

definition deleteNotebook :: "auth \<Rightarrow> oid \<Rightarrow> store \<Rightarrow> unit response \<times> store" where
  "deleteNotebook a i s =
     (case findById (db_notebooks s) i of
        None \<Rightarrow> (Response 404 ''Notebook not found'' None None, s)
      | Some nb \<Rightarrow>
          let canDelete = (''Admin'' \<in> set (userRoles a)
                           \<or> ''Lead Editor'' \<in> set (userRoles a)
                           \<or> owner nb = userId a)
          in if \<not> canDelete
             then (Response 403 ''You do not have permission to delete this notebook'' None None, s)
             else
               let s1 = s\<lparr>db_notes :=
                            updateMany (\<lambda>j n. i \<in> set (notebooks n))
                              (\<lambda>n. n\<lparr>notebooks := pull i (notebooks n)\<rparr>) (db_notes s)\<rparr>;
                   s2 = s1\<lparr>db_notebooks := findByIdAndDelete i (db_notebooks s1)\<rparr>
               in (Response 200 ''Notebook deleted successfully'' None None, s2))"

section \<open>Group model and group controller\<close>

definition validate_group :: "group_doc \<Rightarrow> string list" where
  "validate_group g = required_errors [(''group_id'', group_id g), (''group_name'', group_name g)]"

text \<open>
  \<open>group.save()\<close> of a new group: validation, then the unique indexes (\<open>_id\<close>, and
  the compound index on \<open>group_id\<close> and \<open>lead_editor\<close>).
\<close>

definition save_new_group :: "oid \<Rightarrow> group_doc \<Rightarrow> store \<Rightarrow> failure + store" where
  "save_new_group i g s =
     (if validate_group g \<noteq> [] then Inl (ValidationError (validate_group g))
      else if i \<in> fst ` set (db_groups s) then Inl (DuplicateKey ''_id'')
      else if \<exists>(j, h) \<in> set (db_groups s). group_id h = group_id g \<and> lead_editor h = lead_editor g
      then Inl (DuplicateKey ''group_id_1_lead_editor_1'')
      else Inr (s\<lparr>db_groups := insert_doc i g (db_groups s)\<rparr>))"

definition save_group :: "oid \<Rightarrow> group_doc \<Rightarrow> store \<Rightarrow> failure + store" where
  "save_group i g s =
     (if validate_group g \<noteq> [] then Inl (ValidationError (validate_group g))
      else Inr (s\<lparr>db_groups := save_existing i g (db_groups s)\<rparr>))"

record group_body =
  b_group_name :: "string option"
  b_member_ids :: "oid list option"
  b_group_notebook_ids :: "oid list option"

definition createGroup ::
  "auth \<Rightarrow> env \<Rightarrow> group_body \<Rightarrow> store \<Rightarrow> (oid \<times> group_doc) response \<times> store" where
  "createGroup a e b s =
     (if ''Lead Editor'' \<notin> set (userRoles a) \<and> ''Admin'' \<notin> set (userRoles a)
      then (Response 403 ''Only Lead Editors and Admins can create groups'' None None, s)
      else if falsy (b_group_name b)
      then (Response 400 ''group_name is required'' None None, s)
      else
        let g = \<lparr>group_id = ''GROUP_'' @ key_suffix e,
                 group_name = trim (or_default (b_group_name b) []),
                 lead_editor = userId a,
                 members = or_empty (b_member_ids b),
                 accessible_notebooks = or_empty (b_group_notebook_ids b),
                 group_attachments = [],
                 group_createdAt = now e\<rparr>
        in case save_new_group (new_oid e) g s of
             Inl err \<Rightarrow> (Response 500 ''Error creating group'' (Some err) None, s)
           | Inr s1 \<Rightarrow>
               let s2 = (case b_group_notebook_ids b of
                           None \<Rightarrow> s1
                         | Some ids \<Rightarrow>
                             if length ids > 0
                             then s1\<lparr>db_notebooks :=
                                       updateMany (\<lambda>j nb. j \<in> set ids)
                                         (\<lambda>nb. nb\<lparr>accessible_groups :=
                                                    addToSet (new_oid e) (accessible_groups nb)\<rparr>)
                                         (db_notebooks s1)\<rparr>
                             else s1)
               in (Response 201 ''Group created successfully'' None (Some (new_oid e, g)), s2))"

text \<open>
  \<open>updateGroup\<close> rewrites the notebooks' \<open>accessible_groups\<close> while it assigns the
  fields, and saves the group afterwards: when \<open>group.save()\<close> fails, the notebooks
  have already been written.
\<close>

definition updateGroup ::
  "auth \<Rightarrow> oid \<Rightarrow> group_body \<Rightarrow> store \<Rightarrow> (oid \<times> group_doc) response \<times> store" where
  "updateGroup a i b s =
     (case findById (db_groups s) i of
        None \<Rightarrow> (Response 404 ''Group not found'' None None, s)
      | Some g \<Rightarrow>
          let canEdit = (''Admin'' \<in> set (userRoles a)
                         \<or> (''Lead Editor'' \<in> set (userRoles a) \<and> lead_editor g = userId a))
          in if \<not> canEdit
             then (Response 403 ''You do not have permission to edit this group'' None None, s)
             else
               let g1 = (case b_group_name b of None \<Rightarrow> g | Some v \<Rightarrow> g\<lparr>group_name := trim v\<rparr>);
                   g2 = (case b_member_ids b of None \<Rightarrow> g1 | Some v \<Rightarrow> g1\<lparr>members := v\<rparr>);
                   g3 = (case b_group_notebook_ids b of
                           None \<Rightarrow> g2 | Some v \<Rightarrow> g2\<lparr>accessible_notebooks := v\<rparr>);
                   s1 = (case b_group_notebook_ids b of
                           None \<Rightarrow> s
                         | Some ids \<Rightarrow>
                             let pulled = updateMany (\<lambda>j nb. i \<in> set (accessible_groups nb))
                                            (\<lambda>nb. nb\<lparr>accessible_groups :=
                                                       pull i (accessible_groups nb)\<rparr>)
                                            (db_notebooks s)
                             in if length ids > 0
                                then s\<lparr>db_notebooks :=
                                         updateMany (\<lambda>j nb. j \<in> set ids)
                                           (\<lambda>nb. nb\<lparr>accessible_groups :=
                                                      addToSet i (accessible_groups nb)\<rparr>)
                                           pulled\<rparr>
                                else s\<lparr>db_notebooks := pulled\<rparr>)
               in case save_group i g3 s1 of
                    Inl err \<Rightarrow> (Response 500 ''Error updating group'' (Some err) None, s1)
                  | Inr s2 \<Rightarrow> (Response 200 ''Group updated successfully'' None (Some (i, g3)), s2))"

definition deleteGroup :: "auth \<Rightarrow> oid \<Rightarrow> store \<Rightarrow> unit response \<times> store" where
  "deleteGroup a i s =
     (case findById (db_groups s) i of
        None \<Rightarrow> (Response 404 ''Group not found'' None None, s)
      | Some g \<Rightarrow>
          let canDelete = (''Admin'' \<in> set (userRoles a)
                           \<or> (''Lead Editor'' \<in> set (userRoles a) \<and> lead_editor g = userId a))
          in if \<not> canDelete
             then (Response 403 ''You do not have permission to delete this group'' None None, s)
             else
               let s1 = s\<lparr>db_notebooks :=
                            updateMany (\<lambda>j nb. i \<in> set (accessible_groups nb))
                              (\<lambda>nb. nb\<lparr>accessible_groups := pull i (accessible_groups nb)\<rparr>)
                              (db_notebooks s)\<rparr>;
                   s2 = s1\<lparr>db_groups := findByIdAndDelete i (db_groups s1)\<rparr>
               in (Response 200 ''Group deleted successfully'' None None, s2))"

section \<open>User model and authentication controller\<close>

text \<open>
  \<open>bcrypt.hash\<close>, \<open>bcrypt.compare\<close> and \<open>jwt.sign\<close> are library functions: the
  handlers take them as parameters (\<open>hash\<close>, \<open>compare\<close> with the candidate first and
  the stored hash second, \<open>sign\<close>). In the request body, \<open>phone\<close> is absent, one
  string or an array, and \<open>roles\<close> is absent, an array of strings, or some other
  JSON value.
\<close>

datatype phone_field = PhoneAbsent | PhoneOne string | PhoneMany "string list"

datatype roles_field = RolesAbsent | RolesArray "string list" | RolesOther

record signup_body =
  b_user_name :: "string option"
  b_first_name :: "string option"
  b_last_name :: "string option"
  b_email :: "string option"
  b_password :: "string option"
  b_phone :: phone_field
  b_institution :: "string option"
  b_roles :: roles_field

record user_view =
  v_id :: oid
  v_user_id :: string
  v_user_name :: string
  v_first_name :: string
  v_last_name :: string
  v_email :: string
  v_phone :: "string list"
  v_institution :: string
  v_roles :: "string list"

record auth_payload =
  token :: string
  user_info :: user_view

definition view_of :: "oid \<Rightarrow> user_doc \<Rightarrow> user_view" where
  "view_of i u =
     \<lparr>v_id = i, v_user_id = user_id u, v_user_name = user_name u,
      v_first_name = first_name u, v_last_name = last_name u, v_email = email u,
      v_phone = phone u, v_institution = institution u, v_roles = roles u\<rparr>"

definition role_names :: "string list" where
  "role_names = [''Admin'', ''Lead Editor'', ''Editor'', ''Contributor'']"

definition validate_user :: "user_doc \<Rightarrow> string list" where
  "validate_user u =
     required_errors [(''user_id'', user_id u), (''user_name'', user_name u),
                      (''first_name'', first_name u), (''last_name'', last_name u),
                      (''email'', email u), (''password'', password u)]
     @ minlength_errors ''user_name'' 3 (user_name u)
     @ minlength_errors ''password'' 6 (password u)
     @ enum_errors ''roles'' role_names (roles u)"

text \<open>
  \<open>user.save()\<close> of a new user: validation of the document as assigned, then the
  \<open>pre('save')\<close> hook that replaces the password by its hash, then the unique
  indexes on \<open>_id\<close>, \<open>user_id\<close>, \<open>user_name\<close> and \<open>email\<close>.
\<close>

definition save_new_user ::
  "(string \<Rightarrow> string) \<Rightarrow> oid \<Rightarrow> user_doc \<Rightarrow> store \<Rightarrow> failure + (user_doc \<times> store)" where
  "save_new_user hash i u s =
     (if validate_user u \<noteq> [] then Inl (ValidationError (validate_user u))
      else
        let u' = u\<lparr>password := hash (password u)\<rparr> in
        if i \<in> fst ` set (db_users s) then Inl (DuplicateKey ''_id'')
        else if \<exists>(j, w) \<in> set (db_users s). user_id w = user_id u' then Inl (DuplicateKey ''user_id'')
        else if \<exists>(j, w) \<in> set (db_users s). user_name w = user_name u'
        then Inl (DuplicateKey ''user_name'')
        else if \<exists>(j, w) \<in> set (db_users s). email w = email u' then Inl (DuplicateKey ''email'')
        else Inr (u', s\<lparr>db_users := insert_doc i u' (db_users s)\<rparr>))"

definition signup ::
  "(string \<Rightarrow> string) \<Rightarrow> (oid \<Rightarrow> string) \<Rightarrow> env \<Rightarrow> signup_body \<Rightarrow> store
     \<Rightarrow> auth_payload response \<times> store" where
  "signup hash sign e b s =
     (if falsy (b_user_name b) \<or> falsy (b_first_name b) \<or> falsy (b_last_name b)
         \<or> falsy (b_email b) \<or> falsy (b_password b)
      then (Response 400
              ''Please provide all required fields: user_name, first_name, last_name, email, password''
              None None, s)
      else
        let existingUser =
              findOne (\<lambda>j w. email w = toLowerCase (trim (or_default (b_email b) []))
                              \<or> user_name w = trim (or_default (b_user_name b) []))
                (db_users s)
        in if existingUser \<noteq> None
           then (Response 400 ''User with this email or username already exists'' None None, s)
           else
             let u = \<lparr>user_id = ''USER_'' @ key_suffix e,
                      user_name = trim (or_default (b_user_name b) []),
                      first_name = trim (or_default (b_first_name b) []),
                      last_name = trim (or_default (b_last_name b) []),
                      email = toLowerCase (trim (or_default (b_email b) [])),
                      phone = (case b_phone b of
                                 PhoneAbsent \<Rightarrow> []
                               | PhoneOne p \<Rightarrow> if p = [] then [] else [trim p]
                               | PhoneMany ps \<Rightarrow> map trim ps),
                      institution = trim (or_default (b_institution b) []),
                      password = or_default (b_password b) [],
                      roles = (case b_roles b of
                                 RolesArray rs \<Rightarrow> rs
                               | _ \<Rightarrow> [''Contributor''])\<rparr>
             in case save_new_user hash (new_oid e) u s of
                  Inl err \<Rightarrow> (Response 500 ''Error creating user account'' (Some err) None, s)
                | Inr (u', s') \<Rightarrow>
                    (Response 201 ''User created successfully'' None
                       (Some \<lparr>token = sign (new_oid e), user_info = view_of (new_oid e) u'\<rparr>), s'))"

text \<open>
  \<open>login\<close> tests its two body fields only for truthiness, so each is any JSON value
  or absent. \<open>email.toLowerCase()\<close> throws a \<open>TypeError\<close> on a value that is not a
  string. \<open>user.comparePassword\<close> hands the password to \<open>bcrypt.compare\<close>, which
  rejects a candidate that is not a string (``Illegal arguments''); it is only
  called once a user has been found, and both throws end in the \<open>catch\<close> block.
\<close>

datatype json =
    JNull
  | JBool bool
  | JNumber int
  | JString string
  | JArray "json list"
  | JObject "(string \<times> json) list"

fun truthy :: "json \<Rightarrow> bool" where
  "truthy JNull = False"
| "truthy (JBool b) = b"
| "truthy (JNumber n) = (n \<noteq> 0)"
| "truthy (JString v) = (v \<noteq> [])"
| "truthy (JArray vs) = True"
| "truthy (JObject kvs) = True"

definition js_falsy :: "json option \<Rightarrow> bool" where
  "js_falsy x = (case x of None \<Rightarrow> True | Some v \<Rightarrow> \<not> truthy v)"

fun typeof :: "json option \<Rightarrow> string" where
  "typeof None = ''undefined''"
| "typeof (Some JNull) = ''object''"
| "typeof (Some (JBool b)) = ''boolean''"
| "typeof (Some (JNumber n)) = ''number''"
| "typeof (Some (JString v)) = ''string''"
| "typeof (Some (JArray vs)) = ''object''"
| "typeof (Some (JObject kvs)) = ''object''"

definition comparePassword ::
  "(string \<Rightarrow> string \<Rightarrow> bool) \<Rightarrow> json option \<Rightarrow> user_doc \<Rightarrow> failure + bool" where
  "comparePassword compare candidatePassword u =
     (case candidatePassword of
        Some (JString p) \<Rightarrow> Inr (compare p (password u))
      | _ \<Rightarrow> Inl (JsError (''Illegal arguments: '' @ typeof candidatePassword @ '', string'')))"

definition login ::
  "(string \<Rightarrow> string \<Rightarrow> bool) \<Rightarrow> (oid \<Rightarrow> string) \<Rightarrow> json option \<Rightarrow> json option \<Rightarrow> store
     \<Rightarrow> auth_payload response" where
  "login compare sign email_in password_in s =
     (if js_falsy email_in \<or> js_falsy password_in
      then Response 400 ''Please provide email and password'' None None
      else
        case email_in of
          Some (JString em) \<Rightarrow>
            (case findOne (\<lambda>j w. email w = toLowerCase (trim (toLowerCase em))) (db_users s) of
               None \<Rightarrow> Response 401 ''Invalid email or password'' None None
             | Some (i, u) \<Rightarrow>
                 (case comparePassword compare password_in u of
                    Inl err \<Rightarrow> Response 500 ''Error during login'' (Some err) None
                  | Inr isPasswordValid \<Rightarrow>
                      if \<not> isPasswordValid
                      then Response 401 ''Invalid email or password'' None None
                      else Response 200 ''Login successful'' None
                             (Some \<lparr>token = sign i, user_info = view_of i u\<rparr>)))
        | _ \<Rightarrow>
            Response 500 ''Error during login''
              (Some (TypeError ''email.toLowerCase is not a function'')) None)"

section \<open>A sample store\<close>

text \<open>
  Two Contributors (alice, who owns the private note 10, and bob, who commented on
  it), a Lead Editor who owns group 40, and an Admin. Notebook 30, owned by alice,
  and group 40, of which bob is a member, list each other.
\<close>

definition ex_user :: "string \<Rightarrow> string \<Rightarrow> string list \<Rightarrow> user_doc" where
  "ex_user name mail rs =
     \<lparr>user_id = ''USER_'' @ name, user_name = name, first_name = ''First'', last_name = ''Last'',
      email = mail, phone = [], institution = [], password = ''$2a$10$'' @ name, roles = rs\<rparr>"

definition ex_note :: note_doc where
  "ex_note =
     \<lparr>note_id = ''NOTE_1_a'', UID = 1, title = ''Plan'', content = ''text'', ntype = ''text'',
      creation_time = 100, tags = [], notebooks = [30], connected_notes = [], attachments = [60],
      comments = [50], view_type = ''private'', posted_time = 100\<rparr>"

definition ex_tag :: tag_doc where
  "ex_tag = \<lparr>tag_id = ''TAG_1_a'', tag_name = ''work'', tag_notes = []\<rparr>"

definition ex_notebook :: notebook_doc where
  "ex_notebook =
     \<lparr>notebook_ID = ''NOTEBOOK_1_a'', notebook_name = ''Main'', parent_notebook = None,
      owner = 1, notebook_notes = [10], accessible_groups = [40], notebook_createdAt = 90\<rparr>"

definition ex_comment :: comment_doc where
  "ex_comment =
     \<lparr>comment_id = ''COMMENT_1_a'', comment_user = 2, comment_note = 10,
      comment_text = ''ok'', comment_time = 110, comment_attachments = []\<rparr>"

definition ex_attachment :: attachment_doc where
  "ex_attachment =
     \<lparr>attachment_ID = ''ATTACH_1_a'', file_name = ''a.png'', file_type = ''image/png'',
      URL = ''/files/a.png'', parent_type = ''Note'', parent_id = 10, file_size = 5,
      attachment_createdAt = 120\<rparr>"

definition ex_group :: group_doc where
  "ex_group =
     \<lparr>group_id = ''GROUP_1_a'', group_name = ''Team'', lead_editor = 3, members = [2],
      accessible_notebooks = [30], group_attachments = [], group_createdAt = 95\<rparr>"

text \<open>
  A public note of bob with a comment of alice, and an attachment of comment 50.
\<close>

definition ex_note2 :: note_doc where
  "ex_note2 =
     \<lparr>note_id = ''NOTE_2_b'', UID = 2, title = ''Minutes'', content = ''text'', ntype = ''text'',
      creation_time = 105, tags = [], notebooks = [], connected_notes = [], attachments = [],
      comments = [51], view_type = ''public'', posted_time = 105\<rparr>"

definition ex_comment2 :: comment_doc where
  "ex_comment2 =
     \<lparr>comment_id = ''COMMENT_2_b'', comment_user = 1, comment_note = 11,
      comment_text = ''seen'', comment_time = 115, comment_attachments = []\<rparr>"

definition ex_attachment2 :: attachment_doc where
  "ex_attachment2 =
     \<lparr>attachment_ID = ''ATTACH_2_b'', file_name = ''b.pdf'', file_type = ''application/pdf'',
      URL = ''/files/b.pdf'', parent_type = ''Comment'', parent_id = 50, file_size = 7,
      attachment_createdAt = 125\<rparr>"

definition ex_store :: store where
  "ex_store =
     \<lparr>db_users = [(1, ex_user ''alice'' ''alice@example.org'' [''Contributor'']),
                  (2, ex_user ''bob'' ''bob@example.org'' [''Contributor'']),
                  (3, ex_user ''lea'' ''lea@example.org'' [''Lead Editor'']),
                  (4, ex_user ''root'' ''root@example.org'' [''Admin''])],
      db_notes = [(10, ex_note), (11, ex_note2)],
      db_tags = [(20, ex_tag)],
      db_notebooks = [(30, ex_notebook)],
      db_comments = [(50, ex_comment), (51, ex_comment2)],
      db_attachments = [(60, ex_attachment), (61, ex_attachment2)],
      db_groups = [(40, ex_group)]\<rparr>"

text \<open>The same store once alice's user document is gone.\<close>

definition ex_store_without_alice :: store where
  "ex_store_without_alice = ex_store\<lparr>db_users := findByIdAndDelete 1 (db_users ex_store)\<rparr>"

definition alice :: auth where
  "alice = \<lparr>userId = 1, userRoles = [''Contributor'']\<rparr>"

definition bob :: auth where
  "bob = \<lparr>userId = 2, userRoles = [''Contributor'']\<rparr>"

definition lea :: auth where
  "lea = \<lparr>userId = 3, userRoles = [''Lead Editor'']\<rparr>"

definition root :: auth where
  "root = \<lparr>userId = 4, userRoles = [''Admin'']\<rparr>"

definition no_change :: note_body where
  "no_change = \<lparr>b_title = None, b_content = None, b_type = None, b_tags = None,
                 b_notebook_ids = None, b_connected_note_ids = None, b_view_type = None\<rparr>"

definition ex_env :: env where
  "ex_env = \<lparr>new_oid = 70, now = 200, key_suffix = ''200_k3j9x2q1z''\<rparr>"

definition ex_group_body :: group_body where
  "ex_group_body =
     \<lparr>b_group_name = Some ''Readers'', b_member_ids = Some [2], b_group_notebook_ids = Some [30]\<rparr>"

definition ex_hash :: "string \<Rightarrow> string" where
  "ex_hash p = ''$2a$10$'' @ p"

definition ex_compare :: "string \<Rightarrow> string \<Rightarrow> bool" where
  "ex_compare candidate stored = (stored = ex_hash candidate)"

definition ex_sign :: "oid \<Rightarrow> string" where
  "ex_sign i = ''jwt''"

definition ex_signup_body :: signup_body where
  "ex_signup_body =
     \<lparr>b_user_name = Some ''mallory'', b_first_name = Some ''Mal'', b_last_name = Some ''Lory'',
      b_email = Some ''Mallory@Example.org'', b_password = Some ''secret1'',
      b_phone = PhoneAbsent, b_institution = None, b_roles = RolesArray [''Admin'']\<rparr>"

section \<open>Predicates on the store\<close>

text \<open>
  A user document as the schema's setters leave it: \<open>email\<close> trimmed and in lower
  case, \<open>user_name\<close> trimmed.
\<close>

definition setters_applied :: "user_doc \<Rightarrow> bool" where
  "setters_applied u = (email u = toLowerCase (trim (email u)) \<and> user_name u = trim (user_name u))"

text \<open>Every stored note's \<open>UID\<close> is the \<open>_id\<close> of a stored user.\<close>

definition owners_stored :: "store \<Rightarrow> bool" where
  "owners_stored s = list_all (\<lambda>(i, n). findById (db_users s) (UID n) \<noteq> None) (db_notes s)"

text \<open>
  The two denormalised relations: a stored note lists a stored tag exactly when the
  tag lists the note, and a stored notebook lists a stored group exactly when the
  group lists the notebook.
\<close>

definition tags_agree :: "store \<Rightarrow> bool" where
  "tags_agree s =
     list_all (\<lambda>(i, n). list_all (\<lambda>(t, tg). (t \<in> set (tags n)) = (i \<in> set (tag_notes tg)))
                           (db_tags s))
       (db_notes s)"

definition groups_agree :: "store \<Rightarrow> bool" where
  "groups_agree s =
     list_all (\<lambda>(b, nb). list_all (\<lambda>(g, gr). (g \<in> set (accessible_groups nb))
                                              = (b \<in> set (accessible_notebooks gr)))
                            (db_groups s))
       (db_notebooks s)"

section \<open>Properties of the handlers\<close>

subsection \<open>Auxiliary facts\<close>



subsection \<open>Private notes of other users\<close>




text \<open>
  \<open>createNote\<close>, the one handler that assigns \<open>UID\<close>, keeps every note's owner stored
  when the requester is a stored user.
\<close>

lemma owners_stored_iff:
  "owners_stored s = (\<forall>i n. (i, n) \<in> set (db_notes s) \<longrightarrow> findById (db_users s) (UID n) \<noteq> None)"
  by (auto simp: owners_stored_def list_all_iff)

lemma createNote_owners_stored:
  assumes "owners_stored s" and "findById (db_users s) (userId a) \<noteq> None"
  shows "owners_stored (snd (createNote a e b s))"
proof (cases "falsy (b_title b)")
  case True
  with assms show ?thesis by (simp add: createNote_def)
next
  case False
  define n where "n =
    \<lparr>note_id = ''NOTE_'' @ key_suffix e, UID = userId a,
     title = trim (or_default (b_title b) []), content = or_default (b_content b) [],
     ntype = or_default (b_type b) ''text'', creation_time = now e,
     tags = or_empty (b_tags b), notebooks = or_empty (b_notebook_ids b),
     connected_notes = or_empty (b_connected_note_ids b), attachments = [], comments = [],
     view_type = ''private'', posted_time = now e\<rparr>"
  have u: "UID n = userId a" by (simp add: n_def)
  have r: "snd (createNote a e b s) = s
           \<or> snd (createNote a e b s) = s\<lparr>db_notes := db_notes s @ [(new_oid e, n)]\<rparr>"
    using False
    by (simp add: createNote_def Let_def save_new_note_def insert_doc_def n_def)
  from r show ?thesis
  proof
    assume "snd (createNote a e b s) = s"
    with assms show ?thesis by simp
  next
    assume "snd (createNote a e b s) = s\<lparr>db_notes := db_notes s @ [(new_oid e, n)]\<rparr>"
    with assms u show ?thesis by (auto simp: owners_stored_iff)
  qed
qed

subsection \<open>Who may update or delete a note or a comment\<close>

text \<open>
  Claim C5. For a stored note and a stored comment and any requester, \<open>updateNote\<close>,
  \<open>deleteNote\<close> and \<open>deleteComment\<close> (the controllers have no handler that updates a
  comment) answer something other than 403 exactly when the requester's roles contain
  Admin, Editor or Lead Editor, or the owning user (\<open>UID\<close> of the note, \<open>user\<close> of the
  comment) is the requester; and when the answer is 403 the store is unchanged.
\<close>

theorem C5_update_delete_permission:
  assumes "findById (db_notes s) i = Some n"
    and "findById (db_comments s) j = Some c"
  shows "(status (fst (updateNote a i b s)) \<noteq> 403)
           = (''Admin'' \<in> set (userRoles a) \<or> ''Editor'' \<in> set (userRoles a)
              \<or> ''Lead Editor'' \<in> set (userRoles a) \<or> UID n = userId a)
       \<and> (status (fst (deleteNote a i s)) \<noteq> 403)
           = (''Admin'' \<in> set (userRoles a) \<or> ''Editor'' \<in> set (userRoles a)
              \<or> ''Lead Editor'' \<in> set (userRoles a) \<or> UID n = userId a)
       \<and> (status (fst (deleteComment a j s)) \<noteq> 403)
           = (''Admin'' \<in> set (userRoles a) \<or> ''Editor'' \<in> set (userRoles a)
              \<or> ''Lead Editor'' \<in> set (userRoles a) \<or> comment_user c = userId a)
       \<and> (status (fst (updateNote a i b s)) = 403 \<longrightarrow> snd (updateNote a i b s) = s)
       \<and> (status (fst (deleteNote a i s)) = 403 \<longrightarrow> snd (deleteNote a i s) = s)
       \<and> (status (fst (deleteComment a j s)) = 403 \<longrightarrow> snd (deleteComment a j s) = s)"
proof -
  have u: "(status (fst (updateNote a i b s)) \<noteq> 403)
           = (''Admin'' \<in> set (userRoles a) \<or> ''Editor'' \<in> set (userRoles a)
              \<or> ''Lead Editor'' \<in> set (userRoles a) \<or> UID n = userId a)"
    using assms(1) by (simp add: updateNote_def Let_def save_note_def split: sum.splits)
  have u': "status (fst (updateNote a i b s)) = 403 \<longrightarrow> snd (updateNote a i b s) = s"
    using assms(1) by (simp add: updateNote_def Let_def save_note_def split: sum.splits)
  have d: "(status (fst (deleteNote a i s)) \<noteq> 403)
           = (''Admin'' \<in> set (userRoles a) \<or> ''Editor'' \<in> set (userRoles a)
              \<or> ''Lead Editor'' \<in> set (userRoles a) \<or> UID n = userId a)"
    using assms(1) by (simp add: deleteNote_def Let_def)
  have d': "status (fst (deleteNote a i s)) = 403 \<longrightarrow> snd (deleteNote a i s) = s"
    using assms(1) by (simp add: deleteNote_def Let_def)
  have c: "(status (fst (deleteComment a j s)) \<noteq> 403)
           = (''Admin'' \<in> set (userRoles a) \<or> ''Editor'' \<in> set (userRoles a)
              \<or> ''Lead Editor'' \<in> set (userRoles a) \<or> comment_user c = userId a)"
    using assms(2) by (simp add: deleteComment_def Let_def)
  have c': "status (fst (deleteComment a j s)) = 403 \<longrightarrow> snd (deleteComment a j s) = s"
    using assms(2) by (simp add: deleteComment_def Let_def)
  from u d c u' d' c' show ?thesis by (intro conjI)
qed

text \<open>
  On the sample store bob, a Contributor, is refused on alice's note 10 and allowed
  on his own comment 50; lea, a Lead Editor, may delete the note.
\<close>

theorem C5_update_delete_permission_witness:
  "findById (db_notes ex_store) 10 = Some ex_note
   \<and> findById (db_comments ex_store) 50 = Some ex_comment
   \<and> status (fst (updateNote bob 10 (no_change\<lparr>b_title := Some ''Mine''\<rparr>) ex_store)) = 403
   \<and> snd (updateNote bob 10 (no_change\<lparr>b_title := Some ''Mine''\<rparr>) ex_store) = ex_store
   \<and> status (fst (deleteNote bob 10 ex_store)) = 403
   \<and> snd (deleteNote bob 10 ex_store) = ex_store
   \<and> status (fst (deleteComment bob 50 ex_store)) \<noteq> 403
   \<and> status (fst (deleteNote lea 10 ex_store)) \<noteq> 403"
proof -
  have h1: "findById (db_notes ex_store) 10 = Some ex_note"
    by (simp add: findById_def ex_store_def)
  have h2: "findById (db_comments ex_store) 50 = Some ex_comment"
    by (simp add: findById_def ex_store_def)
  have r: "''Admin'' \<notin> set (userRoles bob)" "''Editor'' \<notin> set (userRoles bob)"
    "''Lead Editor'' \<notin> set (userRoles bob)" "UID ex_note \<noteq> userId bob"
    "comment_user ex_comment = userId bob" "''Lead Editor'' \<in> set (userRoles lea)"
    by (simp_all add: bob_def lea_def ex_note_def ex_comment_def)
  show ?thesis
    using h1 h2 r
      C5_update_delete_permission [OF h1 h2, of bob "no_change\<lparr>b_title := Some ''Mine''\<rparr>"]
      C5_update_delete_permission [OF h1 h2, of lea no_change]
    by simp
qed

subsection \<open>Who may create, update or delete a group\<close>

text \<open>
  Claim C6. \<open>createGroup\<close> answers something other than 403 exactly for a requester
  whose roles contain Lead Editor or Admin. For a stored group G, \<open>updateGroup\<close> and
  \<open>deleteGroup\<close> answer something other than 403 exactly for a requester whose roles
  contain Admin, or contain Lead Editor while the requester is \<open>G.lead_editor\<close>.
\<close>

theorem C6_group_permission:
  assumes "findById (db_groups s) i = Some g"
  shows "(status (fst (createGroup a e b s)) \<noteq> 403)
           = (''Lead Editor'' \<in> set (userRoles a) \<or> ''Admin'' \<in> set (userRoles a))
       \<and> (status (fst (updateGroup a i b s)) \<noteq> 403)
           = (''Admin'' \<in> set (userRoles a)
              \<or> (''Lead Editor'' \<in> set (userRoles a) \<and> lead_editor g = userId a))
       \<and> (status (fst (deleteGroup a i s)) \<noteq> 403)
           = (''Admin'' \<in> set (userRoles a)
              \<or> (''Lead Editor'' \<in> set (userRoles a) \<and> lead_editor g = userId a))"
proof -
  have c: "(status (fst (createGroup a e b s)) \<noteq> 403)
           = (''Lead Editor'' \<in> set (userRoles a) \<or> ''Admin'' \<in> set (userRoles a))"
    by (simp add: createGroup_def Let_def split: sum.splits)
  have u: "(status (fst (updateGroup a i b s)) \<noteq> 403)
           = (''Admin'' \<in> set (userRoles a)
              \<or> (''Lead Editor'' \<in> set (userRoles a) \<and> lead_editor g = userId a))"
    using assms by (simp add: updateGroup_def Let_def split: sum.splits)
  have d: "(status (fst (deleteGroup a i s)) \<noteq> 403)
           = (''Admin'' \<in> set (userRoles a)
              \<or> (''Lead Editor'' \<in> set (userRoles a) \<and> lead_editor g = userId a))"
    using assms by (simp add: deleteGroup_def Let_def)
  from c u d show ?thesis by (intro conjI)
qed

text \<open>
  On the sample store: a Contributor is refused everywhere; lea, the Lead Editor who
  owns group 40, and the Admin are not.
\<close>

theorem C6_group_permission_witness:
  "findById (db_groups ex_store) 40 = Some ex_group
   \<and> status (fst (createGroup bob ex_env ex_group_body ex_store)) = 403
   \<and> status (fst (createGroup lea ex_env ex_group_body ex_store)) \<noteq> 403
   \<and> status (fst (updateGroup lea 40 ex_group_body ex_store)) \<noteq> 403
   \<and> status (fst (updateGroup bob 40 ex_group_body ex_store)) = 403
   \<and> status (fst (deleteGroup root 40 ex_store)) \<noteq> 403
   \<and> status (fst (deleteGroup alice 40 ex_store)) = 403"
proof -
  have h: "findById (db_groups ex_store) 40 = Some ex_group"
    by (simp add: findById_def ex_store_def)
  have r: "lead_editor ex_group = userId lea"
    "userRoles bob = [''Contributor'']" "userRoles alice = [''Contributor'']"
    "userRoles lea = [''Lead Editor'']" "userRoles root = [''Admin'']"
    by (simp_all add: ex_group_def lea_def bob_def alice_def root_def)
  show ?thesis
    using h r
      C6_group_permission [OF h, of bob ex_env ex_group_body]
      C6_group_permission [OF h, of lea ex_env ex_group_body]
      C6_group_permission [OF h, of root ex_env ex_group_body]
      C6_group_permission [OF h, of alice ex_env ex_group_body]
    by simp
qed

subsection \<open>The notebook list of a requester who is not an Admin\<close>

lemma dollar_in_empty: "\<not> dollar_in gs []"
  by (simp add: dollar_in_def)

text \<open>
  Claim C7. For a requester without the Admin role, \<open>getNotebooks\<close> returns exactly
  the notebooks whose \<open>owner\<close> is the requester (newest first): the second disjunct
  of the filter, \<open>accessible_groups: {$in: []}\<close>, matches no notebook.
\<close>

theorem C7_notebook_list_owner_only:
  assumes "''Admin'' \<notin> set (userRoles a)"
  shows "payload (getNotebooks a s)
           = Some (sort_desc notebook_createdAt
                     (find_docs (\<lambda>i nb. owner nb = userId a) (db_notebooks s)))
       \<and> (\<forall>nb. \<not> dollar_in (accessible_groups nb) [])"
proof -
  have q: "getNotebooks_query a = (\<lambda>i nb. owner nb = userId a)"
    using assms by (intro ext) (simp add: getNotebooks_query_def dollar_in_empty)
  show ?thesis
    by (simp add: getNotebooks_def q dollar_in_empty)
qed

text \<open>
  On the sample store alice, who owns notebook 30, gets it; bob, a member of group
  40 that the notebook lists, gets nothing.
\<close>

theorem C7_notebook_list_owner_only_witness:
  "''Admin'' \<notin> set (userRoles alice)
   \<and> ''Admin'' \<notin> set (userRoles bob)
   \<and> payload (getNotebooks alice ex_store) = Some [(30, ex_notebook)]
   \<and> payload (getNotebooks bob ex_store) = Some []"
proof -
  have h: "''Admin'' \<notin> set (userRoles alice)"
    by (simp add: alice_def)
  have h': "''Admin'' \<notin> set (userRoles bob)"
    by (simp add: bob_def)
  have a: "sort_desc notebook_createdAt
             (find_docs (\<lambda>i nb. owner nb = userId alice) (db_notebooks ex_store))
           = [(30, ex_notebook)]"
    by (simp add: sort_desc_def find_docs_def ex_store_def ex_notebook_def alice_def)
  have b: "sort_desc notebook_createdAt
             (find_docs (\<lambda>i nb. owner nb = userId bob) (db_notebooks ex_store))
           = []"
    by (simp add: sort_desc_def find_docs_def ex_store_def ex_notebook_def bob_def)
  have ra: "payload (getNotebooks alice ex_store) = Some [(30, ex_notebook)]"
    using C7_notebook_list_owner_only [OF h, of ex_store] unfolding a by (rule conjunct1)
  have rb: "payload (getNotebooks bob ex_store) = Some []"
    using C7_notebook_list_owner_only [OF h', of ex_store] unfolding b by (rule conjunct1)
  from h h' ra rb show ?thesis by (intro conjI)
qed

subsection \<open>Deleting a note\<close>

lemma findById_findByIdAndDelete: "findById (findByIdAndDelete i c) i = None"
  by (induction c) (auto simp: findById_def findByIdAndDelete_def)

lemma find_docs_deleteMany:
  assumes "\<And>j d. Q j d \<Longrightarrow> P j d"
  shows "find_docs Q (deleteMany P c) = []"
  using assms by (induction c) (auto simp: find_docs_def deleteMany_def)

lemma sort_desc_Nil: "sort_desc f [] = []"
  by (simp add: sort_desc_def)

text \<open>
  Claim C3. When \<open>deleteNote\<close> is called on a stored note N by a requester it
  permits, it answers 200 and the store afterwards holds exactly the former comments
  whose \<open>note\<close> is not N and the former attachments that are not Note-parented by N,
  and no note N: \<open>getNoteById\<close> answers 404 for any requester, and \<open>getComments\<close>
  for N and \<open>getAttachments\<close> for parent type Note and parent N return the empty list.
\<close>

theorem C3_delete_note_cascade:
  assumes "findById (db_notes s) i = Some n"
    and "''Admin'' \<in> set (userRoles a) \<or> ''Editor'' \<in> set (userRoles a)
         \<or> ''Lead Editor'' \<in> set (userRoles a) \<or> UID n = userId a"
  shows "status (fst (deleteNote a i s)) = 200
       \<and> db_comments (snd (deleteNote a i s))
           = filter (\<lambda>(j, c). comment_note c \<noteq> i) (db_comments s)
       \<and> db_attachments (snd (deleteNote a i s))
           = filter (\<lambda>(j, t). \<not> (parent_type t = ''Note'' \<and> parent_id t = i)) (db_attachments s)
       \<and> findById (db_notes (snd (deleteNote a i s))) i = None
       \<and> status (getNoteById a' i (snd (deleteNote a i s))) = 404
       \<and> payload (getComments (Some i) (snd (deleteNote a i s))) = Some []
       \<and> payload (getAttachments (Some ''Note'') (Some i) (snd (deleteNote a i s))) = Some []"
proof -
  define s' where "s' = snd (deleteNote a i s)"
  have r: "deleteNote a i s =
             (Response 200 ''Note deleted successfully'' None None,
              s\<lparr>db_comments := deleteMany (\<lambda>j c. comment_note c = i) (db_comments s),
                db_attachments :=
                  deleteMany (\<lambda>j t. parent_type t = ''Note'' \<and> parent_id t = i) (db_attachments s),
                db_notes := findByIdAndDelete i (db_notes s)\<rparr>)"
    using assms by (simp add: deleteNote_def Let_def)
  have st: "status (fst (deleteNote a i s)) = 200"
    by (simp add: r)
  have cs: "db_comments s' = deleteMany (\<lambda>j c. comment_note c = i) (db_comments s)"
    by (simp add: s'_def r)
  have ats: "db_attachments s'
             = deleteMany (\<lambda>j t. parent_type t = ''Note'' \<and> parent_id t = i) (db_attachments s)"
    by (simp add: s'_def r)
  have ns: "db_notes s' = findByIdAndDelete i (db_notes s)"
    by (simp add: s'_def r)
  have gone: "findById (db_notes s') i = None"
    by (simp add: ns findById_findByIdAndDelete)
  have g: "status (getNoteById a' i s') = 404"
    by (simp add: getNoteById_def gone)
  have c: "payload (getComments (Some i) s') = Some []"
    by (simp add: getComments_def cs find_docs_deleteMany sort_desc_Nil)
  have t: "payload (getAttachments (Some ''Note'') (Some i) s') = Some []"
    by (simp add: getAttachments_def ats falsy_def find_docs_deleteMany sort_desc_Nil)
  have cs': "db_comments s' = filter (\<lambda>(j, c). comment_note c \<noteq> i) (db_comments s)"
    by (simp add: cs deleteMany_def)
  have ats': "db_attachments s'
              = filter (\<lambda>(j, t). \<not> (parent_type t = ''Note'' \<and> parent_id t = i)) (db_attachments s)"
    by (simp add: ats deleteMany_def)
  from st cs' ats' gone g c t show ?thesis
    unfolding s'_def by (intro conjI)
qed

text \<open>
  On the sample store alice deletes her note 10: comment 50 and attachment 60 go with
  it; comment 51, on another note, and attachment 61, of a comment, stay.
\<close>

theorem C3_delete_note_cascade_witness:
  "findById (db_notes ex_store) 10 = Some ex_note
   \<and> UID ex_note = userId alice
   \<and> status (fst (deleteNote alice 10 ex_store)) = 200
   \<and> db_comments (snd (deleteNote alice 10 ex_store)) = [(51, ex_comment2)]
   \<and> db_attachments (snd (deleteNote alice 10 ex_store)) = [(61, ex_attachment2)]
   \<and> findById (db_notes (snd (deleteNote alice 10 ex_store))) 10 = None
   \<and> status (getNoteById alice 10 (snd (deleteNote alice 10 ex_store))) = 404
   \<and> payload (getComments (Some 10) (snd (deleteNote alice 10 ex_store))) = Some []
   \<and> payload (getAttachments (Some ''Note'') (Some 10) (snd (deleteNote alice 10 ex_store)))
       = Some []"
proof -
  have h1: "findById (db_notes ex_store) 10 = Some ex_note"
    by (simp add: findById_def ex_store_def)
  have h2: "UID ex_note = userId alice"
    by (simp add: ex_note_def alice_def)
  have c: "filter (\<lambda>(j, c). comment_note c \<noteq> 10) (db_comments ex_store) = [(51, ex_comment2)]"
    by (simp add: ex_store_def ex_comment_def ex_comment2_def)
  have t: "filter (\<lambda>(j, t). \<not> (parent_type t = ''Note'' \<and> parent_id t = 10))
             (db_attachments ex_store) = [(61, ex_attachment2)]"
    by (simp add: ex_store_def ex_attachment_def ex_attachment2_def)
  show ?thesis
    using h1 h2 c t C3_delete_note_cascade [OF h1, of alice alice] by simp
qed

subsection \<open>Signup and login\<close>



text \<open>
  The setters are idempotent, so \<open>signup\<close> only ever stores users on which they have
  been applied.
\<close>

lemma dropWhile_twice: "dropWhile P (dropWhile P xs) = dropWhile P xs"
  by (induction xs) auto

lemma dropWhile_rev_head:
  assumes "xs = [] \<or> \<not> P (hd xs)"
  shows "dropWhile P (rev (dropWhile P (rev xs))) = rev (dropWhile P (rev xs))"
proof (cases xs)
  case Nil
  then show ?thesis by simp
next
  case (Cons x ys)
  with assms have "\<not> P x" by simp
  then show ?thesis using Cons by (simp add: dropWhile_append)
qed

lemma trim_idem: "trim (trim x) = trim x"
proof -
  have "dropWhile is_space x = [] \<or> \<not> is_space (hd (dropWhile is_space x))"
    using hd_dropWhile by blast
  then have "dropWhile is_space (trim x) = trim x"
    unfolding trim_def by (rule dropWhile_rev_head)
  then show ?thesis by (simp add: trim_def dropWhile_twice)
qed

lemma lower_char_idem: "lower_char (lower_char c) = lower_char c"
  by (simp add: lower_char_def)

lemma is_space_lower_char: "is_space (lower_char c) = is_space c"
  by (simp add: lower_char_def is_space_def)

lemma trim_toLowerCase: "trim (toLowerCase x) = toLowerCase (trim x)"
proof -
  have c: "is_space \<circ> lower_char = is_space"
    by (rule ext) (simp add: is_space_lower_char)
  show ?thesis
    by (simp add: trim_def toLowerCase_def dropWhile_map rev_map c)
qed

lemma toLowerCase_idem: "toLowerCase (toLowerCase x) = toLowerCase x"
  by (simp add: toLowerCase_def lower_char_idem)

lemma email_setters_idem: "toLowerCase (trim (toLowerCase (trim x))) = toLowerCase (trim x)"
  by (simp add: trim_toLowerCase trim_idem toLowerCase_idem)

lemma signup_setters_applied:
  assumes "list_all (\<lambda>(j, w). setters_applied w) (db_users s)"
  shows "list_all (\<lambda>(j, w). setters_applied w) (db_users (snd (signup hash sign e b s)))"
  using assms
  by (auto simp: signup_def Let_def save_new_user_def insert_doc_def setters_applied_def
                 email_setters_idem trim_idem
           split: if_splits sum.splits prod.splits)



text \<open>
  When the email and the password of a login request are strings, the unknown-email
  branch and the wrong-password branch give the same response, status 401 with the
  message ``Invalid email or password'' and nothing else, and \<open>login\<close> never answers
  500.
\<close>

lemma login_failure_uniform_strings:
  assumes "em \<noteq> []" and "pw \<noteq> []"
    and "q = toLowerCase (trim (toLowerCase em))"
    and "findOne (\<lambda>j w. email w = q) (db_users s1) = None"
    and "findOne (\<lambda>j w. email w = q) (db_users s2) = Some (i, u)"
    and "\<not> compare pw (password u)"
  shows "login compare sign (Some (JString em)) (Some (JString pw)) s1
           = Response 401 ''Invalid email or password'' None None
       \<and> login compare sign (Some (JString em)) (Some (JString pw)) s2
           = Response 401 ''Invalid email or password'' None None"
  using assms by (simp add: login_def js_falsy_def comparePassword_def)

lemma login_never_500_on_strings:
  "status (login compare sign (Some (JString em)) (Some (JString pw)) s) \<noteq> 500"
  by (simp add: login_def js_falsy_def comparePassword_def split: option.splits)

text \<open>
  A password that is a number: with alice's address the lookup succeeds and
  \<open>bcrypt.compare\<close> throws; without alice in the store the lookup fails first.
\<close>

lemma ex_login_registered:
  "login ex_compare ex_sign (Some (JString ''alice@example.org'')) (Some (JNumber 123456)) ex_store
   = Response 500 ''Error during login'' (Some (JsError ''Illegal arguments: number, string'')) None"
  by (simp add: login_def js_falsy_def comparePassword_def findOne_def ex_store_def ex_user_def
        toLowerCase_def lower_char_def trim_def is_space_def)

lemma ex_login_unregistered:
  "login ex_compare ex_sign (Some (JString ''alice@example.org'')) (Some (JNumber 123456))
     ex_store_without_alice
   = Response 401 ''Invalid email or password'' None None"
  by (simp add: login_def js_falsy_def findOne_def ex_store_without_alice_def ex_store_def
        ex_user_def findByIdAndDelete_def toLowerCase_def lower_char_def trim_def is_space_def)

text \<open>
  Claim C9. Two login runs that differ only in whether the email is registered do not
  always get the same error response: for the body
  \<open>{email: 'alice@example.org', password: 123456}\<close> the answer is 500 on the sample
  store, where alice is registered, and 401 on the same store without her.
\<close>

theorem C9_login_reveals_registration:
  "status (login ex_compare ex_sign (Some (JString ''alice@example.org'')) (Some (JNumber 123456))
             ex_store) = 500
   \<and> status (login ex_compare ex_sign (Some (JString ''alice@example.org''))
               (Some (JNumber 123456)) ex_store_without_alice) = 401
   \<and> login ex_compare ex_sign (Some (JString ''alice@example.org'')) (Some (JNumber 123456))
        ex_store
     \<noteq> login ex_compare ex_sign (Some (JString ''alice@example.org'')) (Some (JNumber 123456))
         ex_store_without_alice"
  by (simp add: ex_login_registered ex_login_unregistered)

text \<open>
  Claim C10. Whenever \<open>signup\<close> creates a user (status 201), the new user is appended
  to the users with the \<open>roles\<close> array of the request as it was sent, or with
  \<open>['Contributor']\<close> when \<open>roles\<close> is absent or not an array; the response shows the
  same roles. The handler reads no identity of the caller, and the schema accepts any
  array over the four role names: a request with \<open>roles = ['Admin']\<close> creates an Admin.
\<close>

theorem C10_signup_roles:
  assumes "status (fst (signup hash sign e b s)) = 201"
  shows "\<exists>u. db_users (snd (signup hash sign e b s)) = db_users s @ [(new_oid e, u)]
             \<and> roles u = (case b_roles b of RolesArray rs \<Rightarrow> rs | _ \<Rightarrow> [''Contributor''])
             \<and> map_option (v_roles \<circ> user_info) (payload (fst (signup hash sign e b s)))
                 = Some (roles u)"
  using assms
  by (auto simp: signup_def Let_def save_new_user_def insert_doc_def view_of_def
           split: if_splits sum.splits prod.splits)

lemma ex_signup_status:
  "status (fst (signup ex_hash ex_sign ex_env ex_signup_body ex_store)) = 201"
  by (simp add: signup_def Let_def save_new_user_def ex_signup_body_def falsy_def or_default_def
        findOne_def ex_store_def ex_user_def toLowerCase_def lower_char_def trim_def is_space_def
        validate_user_def required_errors_def minlength_errors_def enum_errors_def role_names_def
        ex_env_def insert_doc_def)

lemma ex_signup_status_no_roles:
  "status (fst (signup ex_hash ex_sign ex_env (ex_signup_body\<lparr>b_roles := RolesAbsent\<rparr>) ex_store))
   = 201"
  by (simp add: signup_def Let_def save_new_user_def ex_signup_body_def falsy_def or_default_def
        findOne_def ex_store_def ex_user_def toLowerCase_def lower_char_def trim_def is_space_def
        validate_user_def required_errors_def minlength_errors_def enum_errors_def role_names_def
        ex_env_def insert_doc_def)

text \<open>
  On the sample store the signup of mallory with \<open>roles = ['Admin']\<close> succeeds and
  stores an Admin; without \<open>roles\<close> it stores a Contributor.
\<close>

theorem C10_signup_roles_witness:
  "status (fst (signup ex_hash ex_sign ex_env ex_signup_body ex_store)) = 201
   \<and> (\<exists>u. db_users (snd (signup ex_hash ex_sign ex_env ex_signup_body ex_store))
             = db_users ex_store @ [(70, u)]
           \<and> roles u = [''Admin''])
   \<and> status (fst (signup ex_hash ex_sign ex_env (ex_signup_body\<lparr>b_roles := RolesAbsent\<rparr>)
                     ex_store)) = 201
   \<and> (\<exists>u. db_users (snd (signup ex_hash ex_sign ex_env (ex_signup_body\<lparr>b_roles := RolesAbsent\<rparr>)
                             ex_store))
             = db_users ex_store @ [(70, u)]
           \<and> roles u = [''Contributor''])"
proof -
  have h: "status (fst (signup ex_hash ex_sign ex_env ex_signup_body ex_store)) = 201"
    by (rule ex_signup_status)
  have h': "status (fst (signup ex_hash ex_sign ex_env (ex_signup_body\<lparr>b_roles := RolesAbsent\<rparr>)
                           ex_store)) = 201"
    by (rule ex_signup_status_no_roles)
  have r: "b_roles ex_signup_body = RolesArray [''Admin'']" "new_oid ex_env = 70"
    by (simp_all add: ex_signup_body_def ex_env_def)
  have a: "\<exists>u. db_users (snd (signup ex_hash ex_sign ex_env ex_signup_body ex_store))
                 = db_users ex_store @ [(70, u)]
               \<and> roles u = [''Admin'']"
    using C10_signup_roles [OF h] by (auto simp: r)
  have c: "\<exists>u. db_users (snd (signup ex_hash ex_sign ex_env
                                  (ex_signup_body\<lparr>b_roles := RolesAbsent\<rparr>) ex_store))
                 = db_users ex_store @ [(70, u)]
               \<and> roles u = [''Contributor'']"
    using C10_signup_roles [OF h'] by (auto simp: r)
  from h a h' c show ?thesis by (intro conjI)
qed

subsection \<open>Tags and notes\<close>

lemma tags_agree_iff:
  "tags_agree s = (\<forall>i n t tg. (i, n) \<in> set (db_notes s) \<longrightarrow> (t, tg) \<in> set (db_tags s)
                     \<longrightarrow> (t \<in> set (tags n)) = (i \<in> set (tag_notes tg)))"
  by (auto simp: tags_agree_def list_all_iff)

lemma groups_agree_iff:
  "groups_agree s = (\<forall>b nb g gr. (b, nb) \<in> set (db_notebooks s) \<longrightarrow> (g, gr) \<in> set (db_groups s)
                       \<longrightarrow> (g \<in> set (accessible_groups nb)) = (b \<in> set (accessible_notebooks gr)))"
  by (auto simp: groups_agree_def list_all_iff)

lemma updateMany_simps:
  "updateMany P f [] = []"
  "updateMany P f ((i, d) # c) = (i, if P i d then f d else d) # updateMany P f c"
  by (simp_all add: updateMany_def)

lemma save_existing_simps:
  "save_existing i d [] = []"
  "save_existing i d ((j, e) # c) = (j, if j = i then d else e) # save_existing i d c"
  by (simp_all add: save_existing_def)

lemma in_updateMany:
  "((j, d') \<in> set (updateMany P f c))
   = (\<exists>d. (j, d) \<in> set c \<and> d' = (if P j d then f d else d))"
proof (induction c)
  case Nil
  show ?case by (simp add: updateMany_simps)
next
  case (Cons x c)
  obtain k e where x: "x = (k, e)" by (cases x)
  show ?case
    unfolding x updateMany_simps set_simps insert_iff Cons.IH by auto
qed

lemma in_findByIdAndDelete: "((j, d) \<in> set (findByIdAndDelete i c)) = ((j, d) \<in> set c \<and> j \<noteq> i)"
  by (auto simp: findByIdAndDelete_def)

lemma in_save_existing:
  "((j, d') \<in> set (save_existing i d c))
   = (\<exists>e. (j, e) \<in> set c \<and> d' = (if j = i then d else e))"
  by (induction c) (auto simp: save_existing_simps)

lemma findById_mem: "findById c i = Some d \<Longrightarrow> (i, d) \<in> set c"
  by (simp add: findById_def map_of_SomeD)

text \<open>
  Of the handlers that write \<open>Note.tags\<close> or \<open>Tag.notes\<close>, \<open>addTagToNote\<close> (when it
  answers 200) and \<open>deleteTag\<close> write both sides and keep the two lists in agreement;
  \<open>deleteNote\<close> keeps it for the notes that remain.
\<close>

lemma addTagToNote_preserves:
  assumes "tags_agree s" and "status (fst (addTagToNote i t s)) = 200"
  shows "tags_agree (snd (addTagToNote i t s))"
proof (cases t)
  case None
  with assms show ?thesis by (simp add: addTagToNote_def)
next
  case (Some tg_id)
  show ?thesis
  proof (cases "findById (db_notes s) i")
    case None
    with Some assms show ?thesis by (simp add: addTagToNote_def)
  next
    case n: (Some n)
    show ?thesis
    proof (cases "findById (db_tags s) tg_id")
      case None
      with Some n assms show ?thesis by (simp add: addTagToNote_def)
    next
      case tg: (Some tg)
      have mn: "(i, n) \<in> set (db_notes s)" by (rule findById_mem [OF n])
      have mt: "(tg_id, tg) \<in> set (db_tags s)" by (rule findById_mem [OF tg])
      from assms(1) mn mt have link: "(tg_id \<in> set (tags n)) = (i \<in> set (tag_notes tg))"
        by (simp add: tags_agree_iff)
      show ?thesis
      proof (cases "tg_id \<in> set (tags n)")
        case True
        with Some n tg assms show ?thesis by (simp add: addTagToNote_def)
      next
        case False
        with link have nt: "i \<notin> set (tag_notes tg)" by simp
        from assms(2) Some n tg False nt
        have ok: "validate_note False False (n\<lparr>tags := push tg_id (tags n)\<rparr>) = []"
          "validate_tag (tg\<lparr>tag_notes := push i (tag_notes tg)\<rparr>) = []"
          by (auto simp: addTagToNote_def Let_def save_note_def save_tag_def
                   split: if_splits)
        with Some n tg False nt
        have r: "snd (addTagToNote i t s)
                 = s\<lparr>db_notes := save_existing i (n\<lparr>tags := push tg_id (tags n)\<rparr>) (db_notes s),
                     db_tags := save_existing tg_id (tg\<lparr>tag_notes := push i (tag_notes tg)\<rparr>)
                                  (db_tags s)\<rparr>"
          by (simp add: addTagToNote_def Let_def save_note_def save_tag_def)
        from assms(1) have inv: "\<And>j m t' g'. (j, m) \<in> set (db_notes s) \<Longrightarrow> (t', g') \<in> set (db_tags s)
                                   \<Longrightarrow> (t' \<in> set (tags m)) = (j \<in> set (tag_notes g'))"
          by (simp add: tags_agree_iff)
        show ?thesis
          unfolding r tags_agree_iff
        proof (intro allI impI)
          fix j m t' g'
          assume a: "(j, m) \<in> set (db_notes
                       (s\<lparr>db_notes := save_existing i (n\<lparr>tags := push tg_id (tags n)\<rparr>) (db_notes s),
                          db_tags := save_existing tg_id (tg\<lparr>tag_notes := push i (tag_notes tg)\<rparr>)
                                       (db_tags s)\<rparr>))"
            and b: "(t', g') \<in> set (db_tags
                       (s\<lparr>db_notes := save_existing i (n\<lparr>tags := push tg_id (tags n)\<rparr>) (db_notes s),
                          db_tags := save_existing tg_id (tg\<lparr>tag_notes := push i (tag_notes tg)\<rparr>)
                                       (db_tags s)\<rparr>))"
          from a obtain m0 where m0: "(j, m0) \<in> set (db_notes s)"
            and m: "m = (if j = i then n\<lparr>tags := push tg_id (tags n)\<rparr> else m0)"
            by (auto simp: in_save_existing)
          from b obtain g0 where g0: "(t', g0) \<in> set (db_tags s)"
            and g: "g' = (if t' = tg_id then tg\<lparr>tag_notes := push i (tag_notes tg)\<rparr> else g0)"
            by (auto simp: in_save_existing)
          show "(t' \<in> set (tags m)) = (j \<in> set (tag_notes g'))"
            using inv [OF m0 g0] inv [OF mn g0] inv [OF m0 mt] inv [OF mn mt] m g
            by (auto simp: push_def)
        qed
      qed
    qed
  qed
qed

lemma deleteTag_preserves:
  assumes "tags_agree s"
  shows "tags_agree (snd (deleteTag i s))"
  using assms
  by (auto simp: tags_agree_iff deleteTag_def Let_def in_updateMany in_findByIdAndDelete pull_def
           split: option.splits)

lemma deleteNote_preserves:
  assumes "tags_agree s"
  shows "tags_agree (snd (deleteNote a i s))"
  using assms
  by (auto simp: tags_agree_iff deleteNote_def Let_def in_findByIdAndDelete
           split: option.splits)

text \<open>
  The sample store, and what \<open>updateNote\<close> and \<open>createNote\<close> make of it when the
  request carries \<open>tags\<close>.
\<close>

lemma ex_tags_agree: "tags_agree ex_store"
  by (simp add: tags_agree_def ex_store_def ex_note_def ex_note2_def ex_tag_def)

lemma ex_updateNote_tags:
  "updateNote alice 10 (no_change\<lparr>b_tags := Some [20]\<rparr>) ex_store
   = (Response 200 ''Note updated successfully'' None (Some (10, ex_note\<lparr>tags := [20]\<rparr>)),
      ex_store\<lparr>db_notes := [(10, ex_note\<lparr>tags := [20]\<rparr>), (11, ex_note2)]\<rparr>)"
  by (simp add: updateNote_def findById_def ex_store_def alice_def ex_note_def no_change_def
        Let_def save_note_def validate_note_def required_errors_def save_existing_def)

lemma ex_createNote_tags:
  "createNote bob ex_env (no_change\<lparr>b_title := Some ''Draft'', b_tags := Some [20]\<rparr>) ex_store
   = (Response 201 ''Note created successfully'' None
        (Some (70, \<lparr>note_id = ''NOTE_200_k3j9x2q1z'', UID = 2, title = ''Draft'', content = [],
                    ntype = ''text'', creation_time = 200, tags = [20], notebooks = [],
                    connected_notes = [], attachments = [], comments = [],
                    view_type = ''private'', posted_time = 200\<rparr>)),
      ex_store\<lparr>db_notes := [(10, ex_note), (11, ex_note2),
                 (70, \<lparr>note_id = ''NOTE_200_k3j9x2q1z'', UID = 2, title = ''Draft'', content = [],
                    ntype = ''text'', creation_time = 200, tags = [20], notebooks = [],
                    connected_notes = [], attachments = [], comments = [],
                    view_type = ''private'', posted_time = 200\<rparr>)]\<rparr>)"
  by (simp add: createNote_def falsy_def or_default_def or_empty_def no_change_def ex_env_def
        bob_def trim_def is_space_def Let_def save_new_note_def validate_note_def
        required_errors_def enum_errors_def note_types_def view_types_def ex_store_def
        ex_note_def ex_note2_def insert_doc_def)

text \<open>
  \<open>deleteNote\<close> leaves \<open>Tag.notes\<close> alone: once tag 20 has been added to note 10, the
  deletion of the note leaves its identifier in the tag's list.
\<close>

lemma ex_deleteNote_dangling:
  "status (fst (addTagToNote 10 (Some 20) ex_store)) = 200
   \<and> status (fst (deleteNote alice 10 (snd (addTagToNote 10 (Some 20) ex_store)))) = 200
   \<and> findById (db_notes (snd (deleteNote alice 10 (snd (addTagToNote 10 (Some 20) ex_store))))) 10
       = None
   \<and> map_option tag_notes
        (findById (db_tags (snd (deleteNote alice 10 (snd (addTagToNote 10 (Some 20) ex_store))))) 20)
       = Some [10]"
proof -
  have a: "addTagToNote 10 (Some 20) ex_store
           = (Response 200 ''Tag added to note successfully'' None
                (Some (10, ex_note\<lparr>tags := [20]\<rparr>)),
              ex_store\<lparr>db_notes := [(10, ex_note\<lparr>tags := [20]\<rparr>), (11, ex_note2)],
                        db_tags := [(20, ex_tag\<lparr>tag_notes := [10]\<rparr>)]\<rparr>)"
    by (simp add: addTagToNote_def findById_def ex_store_def ex_note_def ex_tag_def push_def
          Let_def save_note_def save_tag_def validate_note_def validate_tag_def
          required_errors_def save_existing_def)
  show ?thesis
    unfolding a
    by (simp add: deleteNote_def findById_def ex_store_def alice_def ex_note_def Let_def
          findByIdAndDelete_def)
qed

text \<open>
  Claim C2. The agreement of \<open>Note.tags\<close> and \<open>Tag.notes\<close> does not survive
  \<open>updateNote\<close> with a \<open>tags\<close> field or \<open>createNote\<close> with \<open>tags\<close>: both assign the
  note's list and never touch the tag. On the sample store, where the lists agree,
  alice sets the tags of her note 10 to \<open>[20]\<close> and gets 200, and bob creates a note
  with tags \<open>[20]\<close> and gets 201; afterwards the note lists tag 20 and tag 20 does not
  list the note.
\<close>

theorem C2_tags_disagree:
  "tags_agree ex_store
   \<and> status (fst (updateNote alice 10 (no_change\<lparr>b_tags := Some [20]\<rparr>) ex_store)) = 200
   \<and> \<not> tags_agree (snd (updateNote alice 10 (no_change\<lparr>b_tags := Some [20]\<rparr>) ex_store))
   \<and> status (fst (createNote bob ex_env
                     (no_change\<lparr>b_title := Some ''Draft'', b_tags := Some [20]\<rparr>) ex_store)) = 201
   \<and> \<not> tags_agree (snd (createNote bob ex_env
                            (no_change\<lparr>b_title := Some ''Draft'', b_tags := Some [20]\<rparr>) ex_store))"
  by (simp add: ex_tags_agree ex_updateNote_tags ex_createNote_tags)
     (simp add: tags_agree_def ex_store_def ex_tag_def)

subsection \<open>Groups and notebooks\<close>

text \<open>
  \<open>createGroup\<close> (given an ObjectId that no notebook lists yet), \<open>updateGroup\<close> and
  \<open>deleteGroup\<close>, when they succeed, write both sides and keep
  \<open>Notebook.accessible_groups\<close> and \<open>Group.accessible_notebooks\<close> in agreement;
  \<open>deleteNotebook\<close> keeps it for the notebooks that remain.
\<close>

lemma createGroup_preserves:
  assumes "groups_agree s" and "status (fst (createGroup a e b s)) = 201"
    and fresh: "\<forall>(k, nb) \<in> set (db_notebooks s). new_oid e \<notin> set (accessible_groups nb)"
  shows "groups_agree (snd (createGroup a e b s))"
proof -
  from assms(1) have inv: "\<And>k nb h gr. (k, nb) \<in> set (db_notebooks s) \<Longrightarrow> (h, gr) \<in> set (db_groups s)
                             \<Longrightarrow> (h \<in> set (accessible_groups nb)) = (k \<in> set (accessible_notebooks gr))"
    by (simp add: groups_agree_iff)
  define g where "g =
    \<lparr>group_id = ''GROUP_'' @ key_suffix e, group_name = trim (or_default (b_group_name b) []),
     lead_editor = userId a, members = or_empty (b_member_ids b),
     accessible_notebooks = or_empty (b_group_notebook_ids b), group_attachments = [],
     group_createdAt = now e\<rparr>"
  define nbs where "nbs =
    updateMany (\<lambda>j nb. j \<in> set (or_empty (b_group_notebook_ids b)))
      (\<lambda>nb. nb\<lparr>accessible_groups := addToSet (new_oid e) (accessible_groups nb)\<rparr>)
      (db_notebooks s)"
  have um: "updateMany (\<lambda>j nb. False) f c = c" for f and c :: "notebook_doc collection"
    by (induction c) (auto simp: updateMany_simps)
  from assms(2)
  have nid: "new_oid e \<notin> fst ` set (db_groups s)"
    by (auto simp: createGroup_def Let_def save_new_group_def split: if_splits sum.splits)
  from assms(2)
  have r: "snd (createGroup a e b s)
           = s\<lparr>db_groups := db_groups s @ [(new_oid e, g)], db_notebooks := nbs\<rparr>"
    by (auto simp: createGroup_def Let_def save_new_group_def g_def nbs_def insert_doc_def
                   or_empty_def um
             split: if_splits sum.splits option.splits)
  show ?thesis
    unfolding r groups_agree_iff
  proof (intro allI impI)
    fix k nb h gr
    assume "(k, nb) \<in> set (db_notebooks (s\<lparr>db_groups := db_groups s @ [(new_oid e, g)],
                                              db_notebooks := nbs\<rparr>))"
      and "(h, gr) \<in> set (db_groups (s\<lparr>db_groups := db_groups s @ [(new_oid e, g)],
                                          db_notebooks := nbs\<rparr>))"
    then have a: "(k, nb) \<in> set nbs"
      and c: "(h, gr) \<in> set (db_groups s) \<or> (h = new_oid e \<and> gr = g)"
      by auto
    from a obtain nb0 where nb0: "(k, nb0) \<in> set (db_notebooks s)"
      and e0: "nb = (if k \<in> set (or_empty (b_group_notebook_ids b))
                     then nb0\<lparr>accessible_groups := addToSet (new_oid e) (accessible_groups nb0)\<rparr>
                     else nb0)"
      unfolding nbs_def in_updateMany by blast
    have nb: "accessible_groups nb
               = (if k \<in> set (or_empty (b_group_notebook_ids b))
                  then addToSet (new_oid e) (accessible_groups nb0)
                  else accessible_groups nb0)"
      by (simp add: e0)
    from fresh nb0 have f0: "new_oid e \<notin> set (accessible_groups nb0)" by auto
    from c show "(h \<in> set (accessible_groups nb)) = (k \<in> set (accessible_notebooks gr))"
    proof
      assume old: "(h, gr) \<in> set (db_groups s)"
      with nid have "h \<noteq> new_oid e" by force
      with inv [OF nb0 old] nb show ?thesis by (auto simp: addToSet_def split: if_splits)
    next
      assume "h = new_oid e \<and> gr = g"
      with f0 nb show ?thesis by (auto simp: addToSet_def g_def split: if_splits)
    qed
  qed
qed

lemma updateGroup_preserves:
  assumes "groups_agree s" and "status (fst (updateGroup a i b s)) = 200"
  shows "groups_agree (snd (updateGroup a i b s))"
proof (cases "findById (db_groups s) i")
  case None
  with assms show ?thesis by (simp add: updateGroup_def)
next
  case (Some g)
  have mg: "(i, g) \<in> set (db_groups s)" by (rule findById_mem [OF Some])
  from assms(1) have inv: "\<And>k nb h gr. (k, nb) \<in> set (db_notebooks s) \<Longrightarrow> (h, gr) \<in> set (db_groups s)
                             \<Longrightarrow> (h \<in> set (accessible_groups nb)) = (k \<in> set (accessible_notebooks gr))"
    by (simp add: groups_agree_iff)
  define g3 where "g3 =
    (case b_group_notebook_ids b of
       None \<Rightarrow> (case b_member_ids b of
                  None \<Rightarrow> (case b_group_name b of None \<Rightarrow> g | Some v \<Rightarrow> g\<lparr>group_name := trim v\<rparr>)
                | Some v \<Rightarrow> (case b_group_name b of None \<Rightarrow> g | Some v \<Rightarrow> g\<lparr>group_name := trim v\<rparr>)
                             \<lparr>members := v\<rparr>)
     | Some v \<Rightarrow> (case b_member_ids b of
                  None \<Rightarrow> (case b_group_name b of None \<Rightarrow> g | Some v \<Rightarrow> g\<lparr>group_name := trim v\<rparr>)
                | Some v \<Rightarrow> (case b_group_name b of None \<Rightarrow> g | Some v \<Rightarrow> g\<lparr>group_name := trim v\<rparr>)
                             \<lparr>members := v\<rparr>)
                 \<lparr>accessible_notebooks := v\<rparr>)"
  define nbs where "nbs =
    (case b_group_notebook_ids b of
       None \<Rightarrow> db_notebooks s
     | Some ids \<Rightarrow>
         updateMany (\<lambda>j nb. j \<in> set ids \<and> ids \<noteq> [])
           (\<lambda>nb. nb\<lparr>accessible_groups := addToSet i (accessible_groups nb)\<rparr>)
           (updateMany (\<lambda>j nb. i \<in> set (accessible_groups nb))
              (\<lambda>nb. nb\<lparr>accessible_groups := pull i (accessible_groups nb)\<rparr>) (db_notebooks s)))"
  have an: "accessible_notebooks g3
            = (case b_group_notebook_ids b of None \<Rightarrow> accessible_notebooks g | Some v \<Rightarrow> v)"
    by (simp add: g3_def split: option.splits)
  have um: "updateMany (\<lambda>j nb. False) f c = c" for f and c :: "notebook_doc collection"
    by (induction c) (auto simp: updateMany_simps)
  from assms(2) Some
  have r: "snd (updateGroup a i b s) = s\<lparr>db_notebooks := nbs, db_groups := save_existing i g3 (db_groups s)\<rparr>"
    by (auto simp: updateGroup_def Let_def save_group_def g3_def nbs_def um
             split: if_splits option.splits)
  show ?thesis
    unfolding r groups_agree_iff
  proof (intro allI impI)
    fix k nb h gr
    assume "(k, nb) \<in> set (db_notebooks (s\<lparr>db_notebooks := nbs,
                                              db_groups := save_existing i g3 (db_groups s)\<rparr>))"
      and "(h, gr) \<in> set (db_groups (s\<lparr>db_notebooks := nbs,
                                          db_groups := save_existing i g3 (db_groups s)\<rparr>))"
    then have a: "(k, nb) \<in> set nbs" and c: "(h, gr) \<in> set (save_existing i g3 (db_groups s))"
      by simp_all
    from c obtain gr0 where gr0: "(h, gr0) \<in> set (db_groups s)"
      and gr: "gr = (if h = i then g3 else gr0)"
      by (auto simp: in_save_existing)
    show "(h \<in> set (accessible_groups nb)) = (k \<in> set (accessible_notebooks gr))"
    proof (cases "b_group_notebook_ids b")
      case None
      with a have "(k, nb) \<in> set (db_notebooks s)" by (simp add: nbs_def)
      with inv [OF _ gr0] inv [OF _ mg] gr an None show ?thesis by auto
    next
      case (Some ids)
      with a have "(k, nb) \<in> set (updateMany (\<lambda>j nb. j \<in> set ids \<and> ids \<noteq> [])
                      (\<lambda>nb. nb\<lparr>accessible_groups := addToSet i (accessible_groups nb)\<rparr>)
                      (updateMany (\<lambda>j nb. i \<in> set (accessible_groups nb))
                         (\<lambda>nb. nb\<lparr>accessible_groups := pull i (accessible_groups nb)\<rparr>)
                         (db_notebooks s)))"
        by (simp add: nbs_def)
      then obtain nb1 where
        nb1: "(k, nb1) \<in> set (updateMany (\<lambda>j nb. i \<in> set (accessible_groups nb))
                                  (\<lambda>nb. nb\<lparr>accessible_groups := pull i (accessible_groups nb)\<rparr>)
                                  (db_notebooks s))"
        and e1: "nb = (if k \<in> set ids \<and> ids \<noteq> []
                       then nb1\<lparr>accessible_groups := addToSet i (accessible_groups nb1)\<rparr>
                       else nb1)"
        by (subst (asm) in_updateMany) blast
      from nb1 obtain nb0 where nb0: "(k, nb0) \<in> set (db_notebooks s)"
        and e0: "nb1 = (if i \<in> set (accessible_groups nb0)
                        then nb0\<lparr>accessible_groups := pull i (accessible_groups nb0)\<rparr>
                        else nb0)"
        by (subst (asm) in_updateMany) blast
      have nb: "accessible_groups nb
                 = (if k \<in> set ids \<and> ids \<noteq> []
                    then addToSet i (if i \<in> set (accessible_groups nb0)
                                     then pull i (accessible_groups nb0)
                                     else accessible_groups nb0)
                    else (if i \<in> set (accessible_groups nb0)
                          then pull i (accessible_groups nb0)
                          else accessible_groups nb0))"
        by (simp add: e1 e0)
      show ?thesis
        using inv [OF nb0 gr0] gr an Some nb
        by (auto simp: addToSet_def pull_def split: if_splits)
    qed
  qed
qed

lemma deleteGroup_preserves:
  assumes "groups_agree s"
  shows "groups_agree (snd (deleteGroup a i s))"
  using assms
  by (auto simp: groups_agree_iff deleteGroup_def Let_def in_updateMany in_findByIdAndDelete
                 pull_def
           split: option.splits)

lemma deleteNotebook_preserves:
  assumes "groups_agree s"
  shows "groups_agree (snd (deleteNotebook a i s))"
  using assms
  by (auto simp: groups_agree_iff deleteNotebook_def Let_def in_findByIdAndDelete
           split: option.splits)

text \<open>
  The sample store; what \<open>updateGroup\<close> makes of it when \<open>group.save()\<close> fails after the
  notebooks have been rewritten; and \<open>deleteNotebook\<close>, which pulls the notebook from
  the notes and from nothing else.
\<close>

lemma ex_groups_agree: "groups_agree ex_store"
  by (simp add: groups_agree_def ex_store_def ex_notebook_def ex_group_def)

lemma ex_updateGroup_fails:
  "updateGroup lea 40 \<lparr>b_group_name = Some [], b_member_ids = None, b_group_notebook_ids = Some []\<rparr>
     ex_store
   = (Response 500 ''Error updating group'' (Some (ValidationError [''group_name''])) None,
      ex_store\<lparr>db_notebooks := [(30, ex_notebook\<lparr>accessible_groups := []\<rparr>)]\<rparr>)"
  by (simp add: updateGroup_def findById_def ex_store_def lea_def ex_group_def Let_def
        trim_def save_group_def validate_group_def required_errors_def updateMany_def
        ex_notebook_def pull_def)

lemma ex_deleteNotebook_dangling:
  "status (fst (deleteNotebook root 30 ex_store)) = 200
   \<and> findById (db_notebooks (snd (deleteNotebook root 30 ex_store))) 30 = None
   \<and> map_option accessible_notebooks (findById (db_groups (snd (deleteNotebook root 30 ex_store))) 40)
       = Some [30]"
  by (simp add: deleteNotebook_def findById_def ex_store_def root_def Let_def
        findByIdAndDelete_def ex_group_def)

text \<open>
  Claim C4. The agreement of \<open>Notebook.accessible_groups\<close> and
  \<open>Group.accessible_notebooks\<close> does not always hold. On the sample store, where the
  lists agree, lea updates her group 40 with an empty \<open>group_name\<close> and
  \<open>notebook_ids = []\<close>: the group is pulled from notebook 30, \<open>group.save()\<close> fails on
  the required \<open>group_name\<close>, the answer is 500, and the stored group still lists
  notebook 30, which no longer lists the group. And when the Admin deletes notebook
  30, group 40 keeps the identifier of a notebook that is no longer stored.
\<close>

theorem C4_groups_disagree:
  "groups_agree ex_store
   \<and> status (fst (updateGroup lea 40
                     \<lparr>b_group_name = Some [], b_member_ids = None, b_group_notebook_ids = Some []\<rparr>
                     ex_store)) = 500
   \<and> \<not> groups_agree (snd (updateGroup lea 40
                     \<lparr>b_group_name = Some [], b_member_ids = None, b_group_notebook_ids = Some []\<rparr>
                     ex_store))
   \<and> status (fst (deleteNotebook root 30 ex_store)) = 200
   \<and> findById (db_notebooks (snd (deleteNotebook root 30 ex_store))) 30 = None
   \<and> map_option accessible_notebooks (findById (db_groups (snd (deleteNotebook root 30 ex_store))) 40)
       = Some [30]"
proof -
  have "\<not> groups_agree (ex_store\<lparr>db_notebooks := [(30, ex_notebook\<lparr>accessible_groups := []\<rparr>)]\<rparr>)"
    by (simp add: groups_agree_def ex_store_def ex_group_def)
  then show ?thesis
    using ex_groups_agree ex_deleteNotebook_dangling by (simp add: ex_updateGroup_fails)
qed

end
